theory Spec2Isabelle
  imports Complex_Main "HOL-Library.Word"
begin

unbundle bit_operations_syntax

section \<open>Values, errors and byte buffers\<close>

text \<open>
  A \<^verbatim>\<open>Uint8Array\<close> is a list of bytes.  A JavaScript number is an IEEE-754 double:
  a finite double is kept by its exact rational value (the sign of zero is not kept),
  the three other values are constructors of their own.
\<close>

type_synonym byte = "8 word"
type_synonym bytes = "byte list"

datatype jsnum = Fin rat | PInf | NInf | NaN

datatype jsval = Undefined | Null | Num jsnum | Str string

text \<open>
  Every \<^verbatim>\<open>throw\<close> of \<^verbatim>\<open>index.ts\<close> and \<^verbatim>\<open>utils.ts\<close> has a constructor, named after
  its message.  \<open>RangeError\<close> is what \<^verbatim>\<open>DataView\<close> raises on a read past the end of its
  buffer and what \<^verbatim>\<open>Date.toISOString\<close> raises on an invalid date; \<open>TypeError\<close> is a
  property read on \<^verbatim>\<open>undefined\<close>; \<open>PrimitiveError\<close> is whatever a function of the
  module \<^verbatim>\<open>parsing-primitives\<close> throws.
\<close>

datatype error =
    RangeError
  | TypeError
  | PrimitiveError
  | FailedToParseFileHeader
  | UnknownDatabaseVersion nat
  | DBNotFull nat nat
  | FailedToParseTableHeader
  | ExpectedColumns nat nat
  | ColumnNotFoundInNullTable string nat
  | ColumnOffsetBiggerThanRecord nat
  | FailedParsingRecord
  | FailedToParseRecordMetadata bytes
  | FailedToParseNullTable nat
  | LvalMemoDataUndefined
  | CatalogMissingFields
  | CouldNotFindTable string
  | CouldNotFindTableOffset string jsnum
  | EmptyTable

subsection \<open>Slices\<close>

text \<open>
  \<^verbatim>\<open>TypedArray.prototype.slice(start, end)\<close> and \<^verbatim>\<open>subarray\<close>: a negative index counts
  from the end, both indices are clamped to the buffer, a missing \<^verbatim>\<open>end\<close> is the
  length, and \<^verbatim>\<open>undefined\<close> or \<^verbatim>\<open>NaN\<close> as \<^verbatim>\<open>start\<close> is 0.
\<close>

definition relIndex :: "nat \<Rightarrow> int \<Rightarrow> nat" where
  "relIndex len i = (if i < 0 then nat (max (int len + i) 0) else min (nat i) len)"

definition slice2 :: "'a list \<Rightarrow> int \<Rightarrow> int \<Rightarrow> 'a list" where
  "slice2 xs s e =
     (let a = relIndex (length xs) s; b = relIndex (length xs) e
      in take (b - a) (drop a xs))"

definition slice1 :: "'a list \<Rightarrow> int \<Rightarrow> 'a list" where
  "slice1 xs s = drop (relIndex (length xs) s) xs"

subsection \<open>DataView reads\<close>

fun le_nat :: "bytes \<Rightarrow> nat" where
  "le_nat [] = 0"
| "le_nat (b # bs) = unat b + 256 * le_nat bs"

definition getUint :: "nat \<Rightarrow> bytes \<Rightarrow> nat \<Rightarrow> error + nat" where
  "getUint n buf off =
     (if off + n \<le> length buf then Inr (le_nat (take n (drop off buf)))
      else Inl RangeError)"

definition toSigned :: "nat \<Rightarrow> nat \<Rightarrow> int" where
  "toSigned n v = (if 2 ^ (8 * n - 1) \<le> v then int v - 2 ^ (8 * n) else int v)"

definition getInt :: "nat \<Rightarrow> bytes \<Rightarrow> nat \<Rightarrow> error + int" where
  "getInt n buf off =
     (case getUint n buf off of Inl e \<Rightarrow> Inl e | Inr v \<Rightarrow> Inr (toSigned n v))"

subsection \<open>Doubles\<close>

definition pow2 :: "int \<Rightarrow> rat" where
  "pow2 k = (if 0 \<le> k then 2 ^ nat k else 1 / 2 ^ nat (- k))"

fun bitlen :: "nat \<Rightarrow> nat" where
  "bitlen n = (if n = 0 then 0 else Suc (bitlen (n div 2)))"

declare bitlen.simps [simp del]

text \<open>The exponent of a positive rational: the \<open>e\<close> with \<open>2^e \<le> a < 2^(e+1)\<close>.\<close>

definition ilog2 :: "rat \<Rightarrow> int" where
  "ilog2 a =
     (if 1 \<le> a then int (bitlen (nat \<lfloor>a\<rfloor>)) - 1
      else - int (bitlen (nat (\<lceil>1 / a\<rceil> - 1))))"

definition roundHalfEven :: "rat \<Rightarrow> int" where
  "roundHalfEven x =
     (let f = \<lfloor>x\<rfloor>; d = x - of_int f
      in if d < 1 / 2 then f else if 1 / 2 < d then f + 1
         else if even f then f else f + 1)"

text \<open>
  Rounding of a real result to the nearest double, ties to even, as every arithmetic
  operation on JavaScript numbers does: 53 significant bits, subnormals below
  \<open>2^-1022\<close>, an infinity from \<open>2^1024\<close> on.
\<close>

definition fl64 :: "rat \<Rightarrow> jsnum" where
  "fl64 x =
     (if x = 0 then Fin 0
      else let a = \<bar>x\<bar>;
               e = max (ilog2 a) (- 1022);
               q = pow2 (e - 52);
               r = of_int (roundHalfEven (a / q)) * q
           in if pow2 1024 \<le> r then (if 0 < x then PInf else NInf)
              else Fin (if 0 < x then r else - r))"

text \<open>
  \<^verbatim>\<open>DataView.getFloat32\<close> and \<^verbatim>\<open>getFloat64\<close>: the value of an IEEE-754 bit pattern with
  \<open>ebits\<close> exponent bits and \<open>mbits\<close> fraction bits.  Every binary32 value is a double.
\<close>

definition decodeFloat :: "nat \<Rightarrow> nat \<Rightarrow> nat \<Rightarrow> jsnum" where
  "decodeFloat ebits mbits v =
     (let m = v mod 2 ^ mbits;
          e = (v div 2 ^ mbits) mod 2 ^ ebits;
          neg = (v div 2 ^ (mbits + ebits) \<noteq> 0);
          bias = (2::int) ^ (ebits - 1) - 1;
          sg = (if neg then - 1 else 1 :: rat)
      in if e = 2 ^ ebits - 1 then (if m = 0 then (if neg then NInf else PInf) else NaN)
         else if e = 0 then Fin (sg * of_nat m * pow2 (1 - bias - int mbits))
         else Fin (sg * of_nat (2 ^ mbits + m) * pow2 (int e - bias - int mbits)))"

definition getFloat32 :: "bytes \<Rightarrow> nat \<Rightarrow> error + jsnum" where
  "getFloat32 buf off =
     (case getUint 4 buf off of Inl e \<Rightarrow> Inl e | Inr v \<Rightarrow> Inr (decodeFloat 8 23 v))"

definition getFloat64 :: "bytes \<Rightarrow> nat \<Rightarrow> error + jsnum" where
  "getFloat64 buf off =
     (case getUint 8 buf off of Inl e \<Rightarrow> Inl e | Inr v \<Rightarrow> Inr (decodeFloat 11 52 v))"

text \<open>The arithmetic \<^verbatim>\<open>parseType\<close> uses: \<^verbatim>\<open>Math.floor\<close>, \<^verbatim>\<open>x % 1\<close>, \<^verbatim>\<open>x * c\<close>, \<^verbatim>\<open>x / c\<close>, \<^verbatim>\<open>x + y\<close>.\<close>

definition jsFloor :: "jsnum \<Rightarrow> jsnum" where
  "jsFloor x = (case x of Fin r \<Rightarrow> Fin (of_int \<lfloor>r\<rfloor>) | _ \<Rightarrow> x)"

definition jsTrunc :: "rat \<Rightarrow> int" where
  "jsTrunc r = (if 0 \<le> r then \<lfloor>r\<rfloor> else \<lceil>r\<rceil>)"

definition jsMod1 :: "jsnum \<Rightarrow> jsnum" where
  "jsMod1 x = (case x of Fin r \<Rightarrow> Fin (r - of_int (jsTrunc r)) | _ \<Rightarrow> NaN)"

definition jsTimes :: "jsnum \<Rightarrow> rat \<Rightarrow> jsnum" where
  "jsTimes x c = (case x of Fin r \<Rightarrow> fl64 (r * c) | _ \<Rightarrow> x)"

definition jsDivide :: "jsnum \<Rightarrow> rat \<Rightarrow> jsnum" where
  "jsDivide x c = (case x of Fin r \<Rightarrow> fl64 (r / c) | _ \<Rightarrow> x)"

definition jsPlus :: "jsnum \<Rightarrow> jsnum \<Rightarrow> jsnum" where
  "jsPlus x y =
     (case (x, y) of
        (Fin a, Fin b) \<Rightarrow> fl64 (a + b)
      | (NaN, _) \<Rightarrow> NaN
      | (_, NaN) \<Rightarrow> NaN
      | (PInf, NInf) \<Rightarrow> NaN
      | (NInf, PInf) \<Rightarrow> NaN
      | (Fin _, i) \<Rightarrow> i
      | (i, _) \<Rightarrow> i)"

subsection \<open>The host: text decoders and local time\<close>

text \<open>
  \<^verbatim>\<open>TextDecoder\<close>, the local time zone and the conversion of a string to a number
  belong to the JavaScript host, not to the repository: the three decoders the code asks
  for are parameters, and so are the offset of local time from UTC in milliseconds,
  taken to be the same at every date, and \<^verbatim>\<open>StringToNumber\<close>.
\<close>

record host =
  decodeUtf8 :: "bytes \<Rightarrow> string"
  decodeWindows1252 :: "bytes \<Rightarrow> string"
  decodeUtf16le :: "bytes \<Rightarrow> string"
  localOffset :: int
  stringToNumber :: "string \<Rightarrow> jsnum"

subsection \<open>Date\<close>

text \<open>
  A \<^verbatim>\<open>Date\<close> is its time value, milliseconds from 1970-01-01T00:00:00Z, or \<open>None\<close> for
  an invalid date.  The definitions follow the abstract operations of ECMAScript
  (\<^verbatim>\<open>MakeDay\<close>, \<^verbatim>\<open>MakeTime\<close>, \<^verbatim>\<open>MakeDate\<close>, \<^verbatim>\<open>LocalTime\<close>, \<^verbatim>\<open>UTC\<close>, \<^verbatim>\<open>TimeClip\<close>) on exact
  integers: a time value that \<^verbatim>\<open>TimeClip\<close> accepts is below \<open>2^53\<close> in magnitude.
\<close>

definition msPerDay :: int where
  "msPerDay = 86400000"

definition daysFromCivil :: "int \<Rightarrow> int \<Rightarrow> int \<Rightarrow> int" where
  "daysFromCivil y m d =
     (let y1 = (if m \<le> 2 then y - 1 else y);
          era = y1 div 400;
          yoe = y1 - era * 400;
          doy = (153 * (if 2 < m then m - 3 else m + 9) + 2) div 5 + d - 1;
          doe = yoe * 365 + yoe div 4 - yoe div 100 + doy
      in era * 146097 + doe - 719468)"

definition civilFromDays :: "int \<Rightarrow> int \<times> int \<times> int" where
  "civilFromDays z =
     (let z1 = z + 719468;
          era = z1 div 146097;
          doe = z1 - era * 146097;
          yoe = (doe - doe div 1460 + doe div 36524 - doe div 146096) div 365;
          doy = doe - (365 * yoe + yoe div 4 - yoe div 100);
          mp = (5 * doy + 2) div 153;
          d = doy - (153 * mp + 2) div 5 + 1;
          m = (if mp < 10 then mp + 3 else mp - 9)
      in ((if m \<le> 2 then yoe + era * 400 + 1 else yoe + era * 400), m, d))"

definition timeClip :: "int \<Rightarrow> int option" where
  "timeClip t = (if 8640000000000000 < \<bar>t\<bar> then None else Some t)"

definition toInteger :: "jsnum \<Rightarrow> int option" where
  "toInteger x = (case x of Fin r \<Rightarrow> Some (jsTrunc r) | _ \<Rightarrow> None)"

text \<open>\<^verbatim>\<open>new Date("1899-12-30T12:00:00Z")\<close>\<close>

definition epochDate :: "int option" where
  "epochDate = Some (daysFromCivil 1899 12 30 * msPerDay + 12 * 3600000)"

definition getDate :: "'a host_scheme \<Rightarrow> int option \<Rightarrow> jsnum" where
  "getDate h dt =
     (case dt of None \<Rightarrow> NaN
      | Some t \<Rightarrow> (case civilFromDays ((t + localOffset h) div msPerDay) of
                     (y, m, d) \<Rightarrow> Fin (of_int d)))"

definition setDate :: "'a host_scheme \<Rightarrow> int option \<Rightarrow> jsnum \<Rightarrow> int option" where
  "setDate h dt x =
     (case dt of None \<Rightarrow> None
      | Some t \<Rightarrow>
          (case toInteger x of None \<Rightarrow> None
           | Some n \<Rightarrow>
               (let lt = t + localOffset h
                in case civilFromDays (lt div msPerDay) of
                     (y, m, d) \<Rightarrow>
                       timeClip ((daysFromCivil y m 1 + n - 1) * msPerDay
                                 + lt mod msPerDay - localOffset h))))"

definition setHours :: "'a host_scheme \<Rightarrow> int option \<Rightarrow> jsnum \<Rightarrow> jsnum \<Rightarrow> jsnum \<Rightarrow> int option" where
  "setHours h dt hours minutes seconds =
     (case dt of None \<Rightarrow> None
      | Some t \<Rightarrow>
          (case (toInteger hours, toInteger minutes, toInteger seconds) of
             (Some hh, Some mm, Some ss) \<Rightarrow>
               (let lt = t + localOffset h
                in timeClip ((lt div msPerDay) * msPerDay
                             + (hh * 3600000 + mm * 60000 + ss * 1000 + lt mod 1000)
                             - localOffset h))
           | _ \<Rightarrow> None))"

definition digitChar :: "nat \<Rightarrow> char" where
  "digitChar d = ''0123456789'' ! d"

text \<open>The last \<open>w\<close> decimal digits of \<open>n\<close>, zero-padded.\<close>

fun decDigits :: "nat \<Rightarrow> nat \<Rightarrow> string" where
  "decDigits 0 n = []"
| "decDigits (Suc w) n = decDigits w (n div 10) @ [digitChar (n mod 10)]"

definition toISOString :: "int option \<Rightarrow> error + string" where
  "toISOString dt =
     (case dt of None \<Rightarrow> Inl RangeError
      | Some t \<Rightarrow>
          (case civilFromDays (t div msPerDay) of
             (y, m, d) \<Rightarrow>
               (let ms = nat (t mod msPerDay);
                    year = (if 0 \<le> y \<and> y \<le> 9999 then decDigits 4 (nat y)
                            else (if y < 0 then ''-'' else ''+'') @ decDigits 6 (nat \<bar>y\<bar>))
                in Inr (year @ ''-'' @ decDigits 2 (nat m) @ ''-'' @ decDigits 2 (nat d)
                        @ ''T'' @ decDigits 2 (ms div 3600000)
                        @ '':'' @ decDigits 2 (ms div 60000 mod 60)
                        @ '':'' @ decDigits 2 (ms div 1000 mod 60)
                        @ ''.'' @ decDigits 3 (ms mod 1000) @ ''Z''))))"

subsection \<open>GUID strings\<close>

definition hexDigit :: "nat \<Rightarrow> char" where
  "hexDigit n = ''0123456789abcdef'' ! n"

text \<open>\<^verbatim>\<open>("00" + b.toString(16)).slice(-2)\<close>\<close>

definition hex2 :: "byte \<Rightarrow> string" where
  "hex2 b = [hexDigit (unat b div 16), hexDigit (unat b mod 16)]"

definition uuidStringify :: "bytes \<Rightarrow> string" where
  "uuidStringify bs =
     (let hex = map hex2 bs
      in concat (slice2 hex 0 4) @ ''-'' @ concat (slice2 hex 4 6) @ ''-''
         @ concat (slice2 hex 6 8) @ ''-'' @ concat (slice2 hex 8 10) @ ''-''
         @ concat (slice2 hex 10 16))"

section \<open>The type registry: \<^verbatim>\<open>parseType\<close> (utils.ts)\<close>

text \<open>
  The type code is the number read from the column descriptor; the names are those of
  the enum \<^verbatim>\<open>DataType\<close>.  \<^verbatim>\<open>length\<close> is optional (\<open>None\<close> is \<^verbatim>\<open>undefined\<close>), and an index
  past the end of a buffer reads \<^verbatim>\<open>undefined\<close>.
\<close>

abbreviation (input) "TBoolean \<equiv> (1::nat)"
abbreviation (input) "TInt8 \<equiv> (2::nat)"
abbreviation (input) "TInt16 \<equiv> (3::nat)"
abbreviation (input) "TInt32 \<equiv> (4::nat)"
abbreviation (input) "TMoney \<equiv> (5::nat)"
abbreviation (input) "TFloat32 \<equiv> (6::nat)"
abbreviation (input) "TFloat64 \<equiv> (7::nat)"
abbreviation (input) "TDateTime \<equiv> (8::nat)"
abbreviation (input) "TBinary \<equiv> (9::nat)"
abbreviation (input) "TText \<equiv> (10::nat)"
abbreviation (input) "TOLE \<equiv> (11::nat)"
abbreviation (input) "TMemo \<equiv> (12::nat)"
abbreviation (input) "TGUID \<equiv> (15::nat)"
abbreviation (input) "TBit96Bytes17 \<equiv> (16::nat)"
abbreviation (input) "TComplex \<equiv> (18::nat)"

definition elemAt :: "'a list \<Rightarrow> nat \<Rightarrow> 'a option" where
  "elemAt xs i = (if i < length xs then Some (xs ! i) else None)"

definition subarray0 :: "bytes \<Rightarrow> nat option \<Rightarrow> bytes" where
  "subarray0 buf len = (case len of None \<Rightarrow> buf | Some n \<Rightarrow> take n buf)"

definition parseMoney :: "bytes \<Rightarrow> error + jsval" where
  "parseMoney buffer =
     (case getUint 4 buffer 0 of Inl e \<Rightarrow> Inl e
      | Inr low \<Rightarrow>
          (case getInt 4 buffer 4 of Inl e \<Rightarrow> Inl e
           | Inr high \<Rightarrow>
               (let combined = jsPlus (Fin (of_nat low)) (Fin (of_int high * 4294967296))
                in Inr (Num (jsDivide combined 10000)))))"

definition parseDateTime :: "'a host_scheme \<Rightarrow> bytes \<Rightarrow> error + jsval" where
  "parseDateTime h buffer =
     (case getFloat64 buffer 0 of Inl e \<Rightarrow> Inl e
      | Inr daysSinceEpoch \<Rightarrow>
          (let daysPassed = jsFloor daysSinceEpoch;
               hoursPassedDecimal = jsMod1 daysSinceEpoch;
               hours = jsFloor (jsTimes hoursPassedDecimal 24);
               minutes = jsFloor (jsTimes (jsMod1 (jsTimes hoursPassedDecimal 24)) 60);
               seconds = jsFloor (jsTimes (jsMod1 (jsTimes (jsMod1
                            (jsTimes hoursPassedDecimal 24)) 60)) 60);
               date0 = epochDate;
               date1 = setDate h date0 (jsPlus (getDate h date0) daysPassed);
               date2 = setHours h date1 hours minutes seconds
           in case toISOString date2 of Inl e \<Rightarrow> Inl e | Inr s \<Rightarrow> Inr (Str s)))"

definition parseText :: "'a host_scheme \<Rightarrow> bytes \<Rightarrow> nat \<Rightarrow> jsval" where
  "parseText h buffer version =
     (if 3 < version then
        (let first = (elemAt buffer 0 = Some 0xfe \<and> elemAt buffer 1 = Some 0xff);
             second = (elemAt buffer 0 = Some 0xff \<and> elemAt buffer 1 = Some 0xfe)
         in if first \<or> second then Str (decodeWindows1252 h (slice1 buffer 2))
            else Str (decodeUtf16le h buffer))
      else Str (decodeUtf8 h buffer))"

definition parseType :: "'a host_scheme \<Rightarrow> nat \<Rightarrow> bytes \<Rightarrow> nat option \<Rightarrow> nat \<Rightarrow> error + jsval" where
  "parseType h dataType buffer len version =
     (if dataType = TInt8 then
        (case getInt 1 buffer 0 of Inl e \<Rightarrow> Inl e | Inr v \<Rightarrow> Inr (Num (Fin (of_int v))))
      else if dataType = TInt16 then
        (case getInt 2 buffer 0 of Inl e \<Rightarrow> Inl e | Inr v \<Rightarrow> Inr (Num (Fin (of_int v))))
      else if dataType = TInt32 \<or> dataType = TComplex then
        (case getInt 4 buffer 0 of Inl e \<Rightarrow> Inl e | Inr v \<Rightarrow> Inr (Num (Fin (of_int v))))
      else if dataType = TFloat32 then
        (case getFloat32 buffer 0 of Inl e \<Rightarrow> Inl e | Inr v \<Rightarrow> Inr (Num v))
      else if dataType = TFloat64 then
        (case getFloat64 buffer 0 of Inl e \<Rightarrow> Inl e | Inr v \<Rightarrow> Inr (Num v))
      else if dataType = TMoney then parseMoney buffer
      else if dataType = TDateTime then parseDateTime h buffer
      else if dataType = TBinary then Inr (Str (decodeUtf8 h (subarray0 buffer len)))
      else if dataType = TGUID then Inr (Str (uuidStringify (slice2 buffer 0 16)))
      else if dataType = TBit96Bytes17 then Inr (Str (decodeUtf8 h (slice2 buffer 0 17)))
      else if dataType = TText then Inr (parseText h buffer version)
      else Inr (Str ''''))"

section \<open>Dictionaries\<close>

text \<open>
  A \<^verbatim>\<open>Dico<T>\<close> is a plain object used as a dictionary; the association list holds its
  own properties.  Where the keys are numbers (page offsets, column indices) the list is
  kept in ascending key order, the order in which \<^verbatim>\<open>Object.keys\<close> lists such keys; the
  name of a number is never a name that a plain object inherits.  Where the keys are names
  the list is in insertion order, \<open>ownKeys\<close> gives the order of \<^verbatim>\<open>Object.keys\<close> (array
  indices first, ascending, then the other keys as inserted), and a read or a write of a
  name goes through \<open>getProp\<close> or \<open>assignProp\<close>, which know the names that the object
  inherits from \<^verbatim>\<open>Object.prototype\<close>.
\<close>

type_synonym 'a dico = "(nat \<times> 'a) list"

type_synonym 'a sdico = "(string \<times> 'a) list"

fun dicoSet :: "nat \<Rightarrow> 'a \<Rightarrow> 'a dico \<Rightarrow> 'a dico" where
  "dicoSet k v [] = [(k, v)]"
| "dicoSet k v ((k', v') # d) =
     (if k = k' then (k, v) # d
      else if k < k' then (k, v) # (k', v') # d
      else (k', v') # dicoSet k v d)"

text \<open>
  A number used as a property key names the key of a non-negative integer, or no key of
  such a dictionary at all.
\<close>

definition numKey :: "jsnum \<Rightarrow> nat option" where
  "numKey x =
     (case x of
        Fin r \<Rightarrow> (if 0 \<le> r \<and> of_int \<lfloor>r\<rfloor> = r then Some (nat \<lfloor>r\<rfloor>) else None)
      | _ \<Rightarrow> None)"

fun sdicoSet :: "string \<Rightarrow> 'a \<Rightarrow> 'a sdico \<Rightarrow> 'a sdico" where
  "sdicoSet k v [] = [(k, v)]"
| "sdicoSet k v ((k', v') # d) =
     (if k = k' then (k, v) # d else (k', v') # sdicoSet k v d)"

text \<open>
  The properties of \<^verbatim>\<open>Object.prototype\<close>, which every object made by \<^verbatim>\<open>{}\<close> inherits:
  eleven functions and the accessor \<^verbatim>\<open>__proto__\<close>.
\<close>

definition objectPrototypeKeys :: "string list" where
  "objectPrototypeKeys =
     [''constructor'', ''__defineGetter__'', ''__defineSetter__'', ''hasOwnProperty'',
      ''__lookupGetter__'', ''__lookupSetter__'', ''isPrototypeOf'',
      ''propertyIsEnumerable'', ''toString'', ''valueOf'', ''__proto__'',
      ''toLocaleString'']"

text \<open>
  A read \<^verbatim>\<open>obj[k]\<close>: the own property of that name; failing that, while the object has
  \<^verbatim>\<open>Object.prototype\<close> as its prototype (\<open>proto\<close>), the inherited one, which is a function
  or, for \<^verbatim>\<open>__proto__\<close>, the prototype itself; failing that, \<^verbatim>\<open>undefined\<close>.
\<close>

datatype 'a lookup = Absent | Own 'a | Inherited

definition getProp :: "'a sdico \<Rightarrow> bool \<Rightarrow> string \<Rightarrow> 'a lookup" where
  "getProp d proto k =
     (case map_of d k of
        Some v \<Rightarrow> Own v
      | None \<Rightarrow> if proto \<and> k \<in> set objectPrototypeKeys then Inherited else Absent)"

text \<open>
  A write \<^verbatim>\<open>obj[k] = v\<close> of a value that is not an object: it makes or updates an own
  property.  The name \<^verbatim>\<open>__proto__\<close> is the exception while the object inherits the
  accessor of that name and has no own property of that name: its setter takes the
  prototype from the object when \<open>v\<close> is \<^verbatim>\<open>null\<close> and does nothing otherwise.
\<close>

definition assignProp :: "string \<Rightarrow> jsval \<Rightarrow> jsval sdico \<times> bool \<Rightarrow> jsval sdico \<times> bool" where
  "assignProp k v obj =
     (case obj of
        (d, proto) \<Rightarrow>
          if k = ''__proto__'' \<and> proto \<and> map_of d k = None
          then (if v = Null then (d, False) else (d, proto))
          else (sdicoSet k v d, proto))"

definition decValue :: "string \<Rightarrow> nat" where
  "decValue s = foldl (\<lambda>a c. 10 * a + (of_char c - 48)) 0 s"

definition isArrayIndex :: "string \<Rightarrow> bool" where
  "isArrayIndex s =
     (s \<noteq> [] \<and> list_all (\<lambda>c. 48 \<le> (of_char c :: nat) \<and> (of_char c :: nat) \<le> 57) s
      \<and> (s = ''0'' \<or> hd s \<noteq> CHR ''0'') \<and> decValue s < 4294967295)"

definition ownKeys :: "'a sdico \<Rightarrow> string list" where
  "ownKeys d =
     (let ks = map fst d
      in sort_key decValue (filter isArrayIndex ks) @ filter (\<lambda>k. \<not> isArrayIndex k) ks)"

section \<open>The missing module \<^verbatim>\<open>parsing-primitives\<close>\<close>

text \<open>
  \<^verbatim>\<open>index.ts\<close> imports its binary parsers from \<^verbatim>\<open>./parsing-primitives\<close>, which is not
  among the sources.  Each is a parameter: a function from the bytes it is given to the
  fields \<^verbatim>\<open>index.ts\<close> reads from its result, or to an error when it throws.
\<close>

record Column =
  type :: nat
  columnID :: nat
  columnIndex :: nat
  fixedOffset :: nat
  fixedLength :: bool
  colNameStr :: string

record DataPageHeader =
  owner :: nat
  recordOffsets :: "nat list"

record TDefHeader =
  headerEnd :: nat
  nextPagePtr :: nat

record TableHeader =
  TDEF_header :: TDefHeader
  tDefHeaderEnd :: nat
  realIndexCount :: nat
  columnCount :: nat
  variableColumns :: nat

record Memo =
  memoLength :: nat
  recordPointer :: nat
  memoEnd :: nat

record Metadata =
  variableLengthFieldCount :: nat
  variableLengthJumpTable :: "nat list"
  variableLengthFieldOffsets :: "nat list"
  varLenCount :: nat
  relativeMetadataEnd :: int

record env = host +
  ACCESSHEADER_parse :: "bytes \<Rightarrow> error + nat"
  TDEF_HEADER_parse :: "bytes \<Rightarrow> error + TDefHeader"
  MEMO_parse :: "bytes \<Rightarrow> error + Memo"
  parseDataPageHeader :: "bytes \<Rightarrow> nat \<Rightarrow> error + DataPageHeader"
  parseTableHead :: "bytes \<Rightarrow> nat \<Rightarrow> error + TableHeader"
  parseTableData :: "bytes \<Rightarrow> nat \<Rightarrow> nat \<Rightarrow> nat \<Rightarrow> error + Column list \<times> string list"
  parseRelativeObjectMetadataStruct :: "bytes \<Rightarrow> int option \<Rightarrow> nat \<Rightarrow> error + Metadata"

section \<open>\<^verbatim>\<open>AccessTable\<close> (index.ts)\<close>

record TableObject =
  pageValue :: bytes
  linkedPages :: "bytes list"

record AccessTable =
  version :: nat
  pageSize :: nat
  dataPages :: "bytes dico"
  tableDefs :: "bytes dico"
  table :: TableObject
  parsedTable :: "jsval list sdico"
  columns :: "Column dico"
  tableHeader :: TableHeader

text \<open>
  A method that writes to \<^verbatim>\<open>this\<close> takes the object and returns it updated, with the
  error it threw, if any: \<open>(Some e, t)\<close> is a throw of \<open>e\<close> that leaves the object as \<open>t\<close>.
  A method that only reads returns its result or the error.
\<close>

type_synonym 's outcome = "error option \<times> 's"

text \<open>
  \<^verbatim>\<open>parsedTable\<close> is made by \<^verbatim>\<open>{}\<close> and written only by the assignment below, which is
  never reached for \<^verbatim>\<open>__proto__\<close>: it keeps its prototype.

  \<^verbatim>\<open>if (this.parsedTable[name] === undefined) this.parsedTable[name] = []\<close>: for a name
  that the object inherits the test is false and no array is made.
\<close>

definition ensureColumn :: "string \<Rightarrow> AccessTable \<Rightarrow> AccessTable" where
  "ensureColumn name t =
     (case getProp (parsedTable t) True name of
        Absent \<Rightarrow> t\<lparr>parsedTable := sdicoSet name [] (parsedTable t)\<rparr>
      | _ \<Rightarrow> t)"

text \<open>
  \<^verbatim>\<open>this.parsedTable[name]!.push(v)\<close>: on an own array it appends; an inherited
  property has no \<^verbatim>\<open>push\<close> and \<^verbatim>\<open>undefined\<close> has no properties, so the call throws a
  \<^verbatim>\<open>TypeError\<close>.
\<close>

definition pushValue :: "string \<Rightarrow> jsval \<Rightarrow> AccessTable \<Rightarrow> AccessTable outcome" where
  "pushValue name v t =
     (case getProp (parsedTable t) True name of
        Own vs \<Rightarrow> (None, t\<lparr>parsedTable := sdicoSet name (vs @ [v]) (parsedTable t)\<rparr>)
      | _ \<Rightarrow> (Some TypeError, t))"

subsection \<open>\<^verbatim>\<open>getOverflowRecord\<close>\<close>

text \<open>\<^verbatim>\<open>if ((x & 0x8000) >>> 0) x = (x & 0xfff) >>> 0\<close>, where \<open>x\<close> may be \<^verbatim>\<open>undefined\<close>\<close>

definition maskOverflowFlag :: "nat option \<Rightarrow> nat option" where
  "maskOverflowFlag x =
     (case x of None \<Rightarrow> None
      | Some s \<Rightarrow> if s AND 0x8000 \<noteq> 0 then Some (s AND 0xfff) else Some s)"

text \<open>\<^verbatim>\<open>slice(start)\<close> and \<^verbatim>\<open>slice(start, end)\<close> with indices that may be \<^verbatim>\<open>undefined\<close>\<close>

definition sliceOpt :: "'a list \<Rightarrow> nat option \<Rightarrow> nat option \<Rightarrow> 'a list" where
  "sliceOpt xs s e =
     slice2 xs (case s of None \<Rightarrow> 0 | Some a \<Rightarrow> int a)
               (case e of None \<Rightarrow> int (length xs) | Some b \<Rightarrow> int b)"

definition getOverflowRecord :: "env \<Rightarrow> 32 word \<Rightarrow> AccessTable \<Rightarrow> error + bytes option" where
  "getOverflowRecord E recordPtr t =
     (let recordOffset = unat (recordPtr AND 0xff);
          pageNum = unat (drop_bit 8 recordPtr)
      in case map_of (dataPages t) (pageNum * pageSize t) of
           None \<Rightarrow> Inr None
         | Some recordPage \<Rightarrow>
             (case parseDataPageHeader E recordPage (version t) of
                Inl e \<Rightarrow> Inl e
              | Inr parsedData \<Rightarrow>
                  if length (recordOffsets parsedData) < recordOffset then Inr None
                  else
                    (let start = maskOverflowFlag (elemAt (recordOffsets parsedData) recordOffset)
                     in if recordOffset = 0 then Inr (Some (sliceOpt recordPage start None))
                        else
                          (let endOffset = maskOverflowFlag
                                 (elemAt (recordOffsets parsedData) (recordOffset - 1))
                           in Inr (Some (sliceOpt recordPage start endOffset))))))"

subsection \<open>\<^verbatim>\<open>parseFixedLengthData\<close>\<close>

definition parseFixedLengthData ::
  "env \<Rightarrow> bytes \<Rightarrow> Column \<Rightarrow> bool list \<Rightarrow> AccessTable \<Rightarrow> AccessTable outcome" where
  "parseFixedLengthData E originalRecord column nullTable t =
     (let columnName = colNameStr column
      in if length nullTable \<le> columnID column
         then (Some (ColumnNotFoundInNullTable columnName (columnID column)), t)
         else
           (let t1 = ensureColumn columnName t
            in if nullTable ! columnID column then pushValue columnName Null t1
               else if length originalRecord \<le> fixedOffset column
               then (Some (ColumnOffsetBiggerThanRecord (fixedOffset column)), t1)
               else
                 (case parseType E (type column)
                         (slice1 originalRecord (int (fixedOffset column))) None (version t) of
                    Inl e \<Rightarrow> (Some e, t1)
                  | Inr parsedType \<Rightarrow> pushValue columnName parsedType t1)))"

subsection \<open>\<^verbatim>\<open>parseDynamicLengthRecordsMetadata\<close>\<close>

text \<open>\<^verbatim>\<open>Uint8Array.prototype.indexOf\<close>: the first index of a byte, or \<open>-1\<close>.\<close>

fun indexOf :: "bytes \<Rightarrow> byte \<Rightarrow> int" where
  "indexOf [] b = - 1"
| "indexOf (x # xs) b =
     (if x = b then 0 else (let i = indexOf xs b in if i < 0 then - 1 else i + 1))"

definition parseDynamicLengthRecordsMetadata ::
  "env \<Rightarrow> bytes \<Rightarrow> bytes \<Rightarrow> nat \<Rightarrow> AccessTable \<Rightarrow> error + Metadata option" where
  "parseDynamicLengthRecordsMetadata E reverseRecord originalRecord nullTableLength t =
     (if 3 < version t then
        (let rr = slice1 reverseRecord (int nullTableLength + 1);
             rr1 = (if 1 < length rr \<and> elemAt rr 0 = Some 0 then slice1 rr 1 else rr)
         in case parseRelativeObjectMetadataStruct E rr1 None (version t) of
              Inl e \<Rightarrow> Inl e
            | Inr m \<Rightarrow> Inr (Some m))
      else
        (let variableLengthJumpTableCNT = (int (length originalRecord) - 1) div 256;
             rr = slice1 reverseRecord (int nullTableLength)
         in case parseRelativeObjectMetadataStruct E rr
                   (Some variableLengthJumpTableCNT) (version t) of
              Inl e \<Rightarrow> Inl FailedParsingRecord
            | Inr m0 \<Rightarrow>
                (let m = m0\<lparr>relativeMetadataEnd :=
                               relativeMetadataEnd m0 + int nullTableLength\<rparr>
                 in if variableLengthFieldCount m \<noteq> variableColumns (tableHeader t) then
                      (let tmpBuffer0 = (word_of_nat (variableColumns (tableHeader t)) :: byte);
                           metadataStart = indexOf rr tmpBuffer0
                       in if metadataStart \<noteq> 1 \<and> metadataStart < 10 then
                            (case parseRelativeObjectMetadataStruct E
                                    (slice1 rr metadataStart)
                                    (Some variableLengthJumpTableCNT) (version t) of
                               Inl e \<Rightarrow> Inl (FailedToParseRecordMetadata originalRecord)
                             | Inr m2 \<Rightarrow>
                                 Inr (Some (m2\<lparr>relativeMetadataEnd :=
                                                 relativeMetadataEnd m2 + metadataStart\<rparr>)))
                          else Inr None)
                    else Inr (Some m))))"

subsection \<open>\<^verbatim>\<open>parseMemo\<close>\<close>

definition parseMemo :: "env \<Rightarrow> bytes \<Rightarrow> Column \<Rightarrow> AccessTable \<Rightarrow> error + jsval" where
  "parseMemo E relativeObjData column t =
     (case MEMO_parse E relativeObjData of
        Inl e \<Rightarrow> Inl e
      | Inr parsedMemo \<Rightarrow>
          if memoLength parsedMemo AND 0x80000000 \<noteq> 0 then
            (let memoData = slice1 relativeObjData (int (memoEnd parsedMemo))
             in parseType E TText memoData (Some (length memoData)) (version t))
          else if memoLength parsedMemo AND 0x40000000 \<noteq> 0 then
            (case getOverflowRecord E (word_of_nat (recordPointer parsedMemo)) t of
               Inl e \<Rightarrow> Inl e
             | Inr None \<Rightarrow> Inl LvalMemoDataUndefined
             | Inr (Some memoData) \<Rightarrow>
                 parseType E TText memoData (Some (length memoData)) (version t))
          else parseType E (type column) relativeObjData
                 (Some (length relativeObjData)) (version t))"

subsection \<open>\<^verbatim>\<open>parseDynamicLengthData\<close>\<close>

text \<open>
  The value of one variable-length field: a memo that fails to parse falls back to the
  UTF-8 decoding of its bytes, every other type goes to the type registry.
\<close>

definition dynamicValue :: "env \<Rightarrow> bytes \<Rightarrow> Column \<Rightarrow> AccessTable \<Rightarrow> error + jsval" where
  "dynamicValue E relativeObjData column t =
     (if type column = TMemo then
        (case parseMemo E relativeObjData column t of
           Inl e \<Rightarrow> Inr (Str (decodeUtf8 E relativeObjData))
         | Inr v \<Rightarrow> Inr v)
      else parseType E (type column) relativeObjData
             (Some (length relativeObjData)) (version t))"

text \<open>\<^verbatim>\<open>if (x > originalRecord.length) x = (x & 0xff) >>> 0\<close>, where \<open>x\<close> may be \<^verbatim>\<open>undefined\<close>\<close>

definition recoverTruncation :: "nat option \<Rightarrow> nat \<Rightarrow> nat option" where
  "recoverTruncation x len =
     (case x of None \<Rightarrow> None
      | Some n \<Rightarrow> if len < n then Some (n AND 0xff) else Some n)"

text \<open>\<^verbatim>\<open>x + jumpTableAddition\<close> as a slice index: \<^verbatim>\<open>undefined + n\<close> is \<^verbatim>\<open>NaN\<close>, index 0.\<close>

definition sliceIndex :: "nat option \<Rightarrow> nat \<Rightarrow> int" where
  "sliceIndex x jumpTableAddition =
     (case x of None \<Rightarrow> 0 | Some n \<Rightarrow> int (n + jumpTableAddition))"

text \<open>
  The loop over the variable-length columns; \<open>i\<close> is the index of the column at the head
  of the list (the source counts it up from \<open>-1\<close> at the top of the body).
\<close>

fun dynamicLoop ::
  "env \<Rightarrow> bytes \<Rightarrow> Metadata \<Rightarrow> bool list \<Rightarrow> Column list \<Rightarrow> nat \<Rightarrow> nat
     \<Rightarrow> AccessTable \<Rightarrow> AccessTable outcome" where
  "dynamicLoop E originalRecord md nullTable [] i jumpTableAddition t = (None, t)"
| "dynamicLoop E originalRecord md nullTable (column # rest) i jumpTableAddition t =
     (let colName = colNameStr column;
          relativeOffsets = variableLengthFieldOffsets md
      in if columnID column < length nullTable \<and> nullTable ! columnID column then
           (case pushValue colName Null (ensureColumn colName t) of
              (Some e, t1) \<Rightarrow> (Some e, t1)
            | (None, t1) \<Rightarrow>
                dynamicLoop E originalRecord md nullTable rest (Suc i) jumpTableAddition t1)
         else
           (let jta = (if version t = 3 \<and> i \<in> set (variableLengthJumpTable md)
                       then (jumpTableAddition + 0x100) mod 2 ^ 32
                       else jumpTableAddition);
                relStart0 = elemAt relativeOffsets i;
                relEnd0 = (if i + 1 = length relativeOffsets then Some (varLenCount md)
                           else elemAt relativeOffsets (i + 1));
                relEnd = (if 3 < version t
                          then recoverTruncation relEnd0 (length originalRecord)
                          else relEnd0);
                relStart = (if 3 < version t
                            then recoverTruncation relStart0 (length originalRecord)
                            else relStart0)
            in if relStart = relEnd then
                 (case pushValue colName (Str '''') (ensureColumn colName t) of
                    (Some e, t1) \<Rightarrow> (Some e, t1)
                  | (None, t1) \<Rightarrow>
                      dynamicLoop E originalRecord md nullTable rest (Suc i) jta t1)
               else
                 (let relativeObjData = slice2 originalRecord (sliceIndex relStart jta)
                                          (sliceIndex relEnd jta)
                  in case dynamicValue E relativeObjData column t of
                       Inl e \<Rightarrow> (Some e, t)
                     | Inr parsedType \<Rightarrow>
                         (case pushValue colName parsedType (ensureColumn colName t) of
                            (Some e, t1) \<Rightarrow> (Some e, t1)
                          | (None, t1) \<Rightarrow>
                              dynamicLoop E originalRecord md nullTable rest (Suc i) jta
                                t1))))"

definition parseDynamicLengthData ::
  "env \<Rightarrow> bytes \<Rightarrow> Metadata \<Rightarrow> Column list \<Rightarrow> bool list \<Rightarrow> AccessTable
     \<Rightarrow> AccessTable outcome" where
  "parseDynamicLengthData E originalRecord relativeRecordMetadata relativeRecordsColumnMap
       nullTable t =
     dynamicLoop E originalRecord relativeRecordMetadata nullTable
       relativeRecordsColumnMap 0 0 t"

subsection \<open>\<^verbatim>\<open>parseRow\<close>\<close>

text \<open>
  The null table of a row: entry \<open>i\<close> is
  \<^verbatim>\<open>(nullTableBuffer[Math.floor(i / 8)] & (1 << i % 8)) !== 0\<close>.
\<close>

definition nullTableOf :: "bytes \<Rightarrow> bool list" where
  "nullTableOf nullTableBuffer =
     map (\<lambda>i. nullTableBuffer ! (i div 8) AND push_bit (i mod 8) 1 \<noteq> 0)
       [0 ..< length nullTableBuffer * 8]"

text \<open>
  The loop of \<^verbatim>\<open>parseRow\<close> over \<^verbatim>\<open>Object.keys(this.columns)\<close>: a column that is not of
  fixed length is put aside for the second pass, a fixed-length one is parsed at once.
\<close>

fun fixedLoop ::
  "env \<Rightarrow> bytes \<Rightarrow> bool list \<Rightarrow> Column list \<Rightarrow> AccessTable \<Rightarrow> AccessTable outcome" where
  "fixedLoop E rec nullTable [] t = (None, t)"
| "fixedLoop E rec nullTable (column # rest) t =
     (if \<not> fixedLength column then fixedLoop E rec nullTable rest t
      else (case parseFixedLengthData E rec column nullTable t of
              (Some e, t1) \<Rightarrow> (Some e, t1)
            | (None, t1) \<Rightarrow> fixedLoop E rec nullTable rest t1))"

definition parseRow :: "env \<Rightarrow> bytes \<Rightarrow> AccessTable \<Rightarrow> AccessTable outcome" where
  "parseRow E rec t =
     (let originalRecord = rec;
          reverseRecord = rev rec;
          nullTableLen = (columnCount (tableHeader t) + 7) div 8
      in if nullTableLen \<noteq> 0 \<and> nullTableLen < length originalRecord then
           (let nullTable = nullTableOf (slice1 rec (int (length rec) - int nullTableLen));
                rec1 = (if 3 < version t then slice1 rec 2 else slice1 rec 1);
                relativeRecordsColumnMap =
                  filter (\<lambda>c. \<not> fixedLength c) (map snd (columns t))
            in case fixedLoop E rec1 nullTable (map snd (columns t)) t of
                 (Some e, t1) \<Rightarrow> (Some e, t1)
               | (None, t1) \<Rightarrow>
                   (case parseDynamicLengthRecordsMetadata E reverseRecord originalRecord
                           nullTableLen t1 of
                      Inl e \<Rightarrow> (Some e, t1)
                    | Inr None \<Rightarrow> (None, t1)
                    | Inr (Some metadata) \<Rightarrow>
                        parseDynamicLengthData E originalRecord metadata
                          relativeRecordsColumnMap nullTable t1))
         else (Some (FailedToParseNullTable (columnCount (tableHeader t))), t))"

subsection \<open>\<^verbatim>\<open>parse\<close>\<close>

text \<open>
  The loop over the record offsets of one data page.  \<open>lastOffset\<close> is \<open>None\<close> while it is
  \<^verbatim>\<open>undefined\<close>; \<^verbatim>\<open>!lastOffset\<close> also holds when it is 0.
\<close>

fun recordLoop ::
  "env \<Rightarrow> bytes \<Rightarrow> nat list \<Rightarrow> nat option \<Rightarrow> AccessTable \<Rightarrow> AccessTable outcome" where
  "recordLoop E originalData [] lastOffset t = (None, t)"
| "recordLoop E originalData (recOffset # rest) lastOffset t =
     (if recOffset AND 0x8000 \<noteq> 0 then
        recordLoop E originalData rest (Some (recOffset AND 0xfff)) t
      else if recOffset AND 0x4000 \<noteq> 0 then
        (let recPtrOffset = recOffset AND 0xfff;
             overflowRecPtrBuffer =
               slice2 originalData (int recPtrOffset) (int (recPtrOffset + 4))
         in case getUint 4 overflowRecPtrBuffer 0 of
              Inl e \<Rightarrow> (Some e, t)
            | Inr overflowRecPtr \<Rightarrow>
                (case getOverflowRecord E (word_of_nat overflowRecPtr) t of
                   Inl e \<Rightarrow> (Some e, t)
                 | Inr None \<Rightarrow> recordLoop E originalData rest (Some recPtrOffset) t
                 | Inr (Some rec) \<Rightarrow>
                     (case parseRow E rec t of
                        (Some e, t1) \<Rightarrow> (Some e, t1)
                      | (None, t1) \<Rightarrow>
                          recordLoop E originalData rest (Some recPtrOffset) t1)))
      else
        (let rec = (case lastOffset of
                      None \<Rightarrow> slice1 originalData (int recOffset)
                    | Some l \<Rightarrow> if l = 0 then slice1 originalData (int recOffset)
                                else slice2 originalData (int recOffset) (int l))
         in case parseRow E rec t of
              (Some e, t1) \<Rightarrow> (Some e, t1)
            | (None, t1) \<Rightarrow> recordLoop E originalData rest (Some recOffset) t1))"

fun pageLoop :: "env \<Rightarrow> bytes list \<Rightarrow> AccessTable \<Rightarrow> AccessTable outcome" where
  "pageLoop E [] t = (None, t)"
| "pageLoop E (dataChunk # rest) t =
     (case parseDataPageHeader E dataChunk (version t) of
        Inl e \<Rightarrow> (Some e, t)
      | Inr parsedData \<Rightarrow>
          (case recordLoop E dataChunk (recordOffsets parsedData) None t of
             (Some e, t1) \<Rightarrow> (Some e, t1)
           | (None, t1) \<Rightarrow> pageLoop E rest t1))"

text \<open>
  \<^verbatim>\<open>parse\<close> returns \<^verbatim>\<open>this.parsedTable\<close>, read here from the object it leaves.  Its first
  line, \<^verbatim>\<open>if (!this.table.linkedPages) return this.createEmptyTable()\<close>, never returns: an
  array is truthy, also an empty one.
\<close>

definition parse :: "env \<Rightarrow> AccessTable \<Rightarrow> AccessTable outcome" where
  "parse E t = pageLoop E (linkedPages (table t)) t"

subsection \<open>The constructor: \<^verbatim>\<open>getTableColumns\<close> and \<^verbatim>\<open>mergeTableData\<close>\<close>

text \<open>
  \<^verbatim>\<open>mergeTableData\<close> follows the chain of \<^verbatim>\<open>nextPagePtr\<close> until it reads 0; on a chain
  that closes on itself it does not return, which is the value \<open>None\<close>.  A page of the
  chain that is not a table definition is \<^verbatim>\<open>undefined\<close>, handed to \<^verbatim>\<open>TDEF_HEADER.parse\<close>.
\<close>

partial_function (option) mergeLoop ::
  "env \<Rightarrow> bytes dico \<Rightarrow> nat \<Rightarrow> TDefHeader \<Rightarrow> bytes \<Rightarrow> (error + bytes) option" where
  "mergeLoop E tdefs psize parsedHeader acc =
     (if nextPagePtr parsedHeader \<noteq> 0 then
        (case map_of tdefs (nextPagePtr parsedHeader * psize) of
           None \<Rightarrow> Some (Inl TypeError)
         | Some tbl \<Rightarrow>
             (case TDEF_HEADER_parse E tbl of
                Inl e \<Rightarrow> Some (Inl e)
              | Inr ph \<Rightarrow> mergeLoop E tdefs psize ph (acc @ slice1 tbl (int (headerEnd ph)))))
      else Some (Inr acc))"

definition mergeTableData ::
  "env \<Rightarrow> bytes dico \<Rightarrow> nat \<Rightarrow> nat \<Rightarrow> (error + bytes) option" where
  "mergeTableData E tdefs psize firstPage =
     (case map_of tdefs (firstPage * psize) of
        None \<Rightarrow> Some (Inl TypeError)
      | Some tbl \<Rightarrow>
          (case TDEF_HEADER_parse E tbl of
             Inl e \<Rightarrow> Some (Inl e)
           | Inr ph \<Rightarrow> mergeLoop E tdefs psize ph (slice1 tbl (int (headerEnd ph)))))"

definition minColumnIndex :: "Column list \<Rightarrow> nat" where
  "minColumnIndex cols =
     (case cols of [] \<Rightarrow> 0 | c # cs \<Rightarrow> foldl min (columnIndex c) (map columnIndex cs))"

text \<open>
  The part of \<^verbatim>\<open>getTableColumns\<close> after its \<^verbatim>\<open>try\<close>: the names are zipped onto the
  descriptors, the columns keyed by \<^verbatim>\<open>columnIndex - offset\<close>, then also by \<^verbatim>\<open>columnID\<close>
  when two columns shared a key, and the number of keys compared with \<^verbatim>\<open>columnCount\<close>.
\<close>

definition columnDictOf ::
  "Column list \<Rightarrow> string list \<Rightarrow> TableHeader \<Rightarrow> error + Column dico \<times> TableHeader" where
  "columnDictOf cols colNames th =
     (if length colNames < length cols then Inl TypeError
      else
        (let named = map (\<lambda>(c, n). c\<lparr>colNameStr := n\<rparr>) (zip cols colNames);
             offset = minColumnIndex named;
             byIndex = foldl (\<lambda>d x. dicoSet (columnIndex x - offset) x d) [] named;
             columnDict = (if length byIndex \<noteq> length named
                           then foldl (\<lambda>d x. dicoSet (columnID x) x d) byIndex named
                           else byIndex)
         in if length columnDict \<noteq> columnCount th
            then Inl (ExpectedColumns (columnCount th) (length columnDict))
            else Inr (columnDict, th)))"

definition getTableColumns ::
  "env \<Rightarrow> TableObject \<Rightarrow> nat \<Rightarrow> nat \<Rightarrow> bytes dico
     \<Rightarrow> (error + Column dico \<times> TableHeader) option" where
  "getTableColumns E tbl ver psize tdefs =
     (case parseTableHead E (pageValue tbl) ver of
        Inl e \<Rightarrow> Some (Inl FailedToParseTableHeader)
      | Inr th \<Rightarrow>
          (case (if nextPagePtr (TDEF_header th) \<noteq> 0
                 then mergeTableData E tdefs psize (nextPagePtr (TDEF_header th))
                 else Some (Inr [])) of
             None \<Rightarrow> None
           | Some (Inl e) \<Rightarrow> Some (Inl FailedToParseTableHeader)
           | Some (Inr tailData) \<Rightarrow>
               (case parseTableData E
                       (slice1 (pageValue tbl) (int (tDefHeaderEnd th)) @ tailData)
                       (realIndexCount th) (columnCount th) ver of
                  Inl e \<Rightarrow> Some (Inl FailedToParseTableHeader)
                | Inr (cols, colNames) \<Rightarrow> Some (columnDictOf cols colNames th))))"

definition newAccessTable ::
  "env \<Rightarrow> TableObject \<Rightarrow> nat \<Rightarrow> nat \<Rightarrow> bytes dico \<Rightarrow> bytes dico
     \<Rightarrow> (error + AccessTable) option" where
  "newAccessTable E tbl ver psize dps tdefs =
     (case getTableColumns E tbl ver psize tdefs of
        None \<Rightarrow> None
      | Some (Inl e) \<Rightarrow> Some (Inl e)
      | Some (Inr (cols, th)) \<Rightarrow>
          Some (Inr \<lparr>version = ver, pageSize = psize, dataPages = dps, tableDefs = tdefs,
                     table = tbl, parsedTable = [], columns = cols, tableHeader = th\<rparr>))"

section \<open>\<^verbatim>\<open>categorizePages\<close> (utils.ts)\<close>

fun compareLoop :: "bytes \<Rightarrow> bytes \<Rightarrow> int" where
  "compareLoop (a # as) (b # bs) =
     (if a \<noteq> b then int (unat a) - int (unat b) else compareLoop as bs)"
| "compareLoop _ _ = 0"

definition compareUint8Arrays :: "bytes \<Rightarrow> bytes \<Rightarrow> int" where
  "compareUint8Arrays a b =
     (if length a \<noteq> length b then int (length a) - int (length b) else compareLoop a b)"

definition DATA_PAGE_MAGIC :: bytes where
  "DATA_PAGE_MAGIC = [0x01, 0x01]"

definition TABLE_PAGE_MAGIC :: bytes where
  "TABLE_PAGE_MAGIC = [0x02, 0x01]"

text \<open>
  The pages of the buffer at their offsets, and of them the table definitions and the
  data pages.  The page size is not 0 (the constructor passes \<open>0x800\<close> or \<open>0x1000\<close>).
\<close>

definition categorizePages :: "bytes \<Rightarrow> nat \<Rightarrow> error + bytes dico \<times> bytes dico" where
  "categorizePages buf psize =
     (if length buf mod psize \<noteq> 0 then Inl (DBNotFull psize (length buf))
      else
        (let pages = map (\<lambda>k. (k * psize, slice2 buf (int (k * psize)) (int (k * psize + psize))))
                       [0 ..< length buf div psize];
             comp1 = (\<lambda>p. compareUint8Arrays DATA_PAGE_MAGIC (slice2 p 0 2) = 0);
             comp2 = (\<lambda>p. compareUint8Arrays TABLE_PAGE_MAGIC (slice2 p 0 2) = 0)
         in Inr (filter (\<lambda>(k, p). \<not> comp1 p \<and> comp2 p) pages,
                 filter (\<lambda>(k, p). comp1 p) pages)))"

section \<open>\<^verbatim>\<open>AccessParser\<close> (index.ts)\<close>

record AccessParser =
  dbData :: bytes
  dbTableDefs :: "bytes dico"
  dbDataPages :: "bytes dico"
  tablesWithData :: "nat \<rightharpoonup> TableObject"
  dbVersion :: nat
  dbPageSize :: nat
  catalog :: "jsval sdico"
  catalogProto :: bool

definition SYSTEM_TABLE_FLAGS :: "jsval list" where
  "SYSTEM_TABLE_FLAGS =
     [Num (Fin (- 2147483648)), Num (Fin (- 2)), Num (Fin 2147483648), Num (Fin 2)]"

definition parseFileHeader :: "env \<Rightarrow> bytes \<Rightarrow> error + nat \<times> nat" where
  "parseFileHeader E buf =
     (case ACCESSHEADER_parse E buf of
        Inl e \<Rightarrow> Inl FailedToParseFileHeader
      | Inr jetVersion \<Rightarrow>
          if jetVersion \<in> set [1, 2, 3] then
            Inr (if jetVersion = 1 then 4 else if jetVersion = 2 then 5 else 2010, 0x1000)
          else if jetVersion \<noteq> 0 then Inl (UnknownDatabaseVersion jetVersion)
          else Inr (3, 0x800))"

subsection \<open>\<^verbatim>\<open>linkTablesToData\<close>\<close>

fun linkLoop ::
  "env \<Rightarrow> nat \<Rightarrow> nat \<Rightarrow> bytes dico \<Rightarrow> bytes list \<Rightarrow> (nat \<rightharpoonup> TableObject)
     \<Rightarrow> (nat \<rightharpoonup> TableObject)" where
  "linkLoop E ver psize tdefs [] twd = twd"
| "linkLoop E ver psize tdefs (page # rest) twd =
     (case parseDataPageHeader E page ver of
        Inl e \<Rightarrow> linkLoop E ver psize tdefs rest twd
      | Inr parsedDP \<Rightarrow>
          (let pageOffset = owner parsedDP * psize
           in case map_of tdefs pageOffset of
                None \<Rightarrow> linkLoop E ver psize tdefs rest twd
              | Some tablePageValue \<Rightarrow>
                  (let obj = (case twd pageOffset of
                                None \<Rightarrow> \<lparr>pageValue = tablePageValue, linkedPages = []\<rparr>
                              | Some o1 \<Rightarrow> o1)
                   in linkLoop E ver psize tdefs rest
                        (twd(pageOffset \<mapsto> obj\<lparr>linkedPages := linkedPages obj @ [page]\<rparr>)))))"

text \<open>
  \<^verbatim>\<open>tablesWithData\<close> is only ever read by key, so it is a map; the data pages are visited
  in the order of \<^verbatim>\<open>Object.keys(this.dataPages)\<close>.
\<close>

definition linkTablesToData ::
  "env \<Rightarrow> nat \<Rightarrow> nat \<Rightarrow> bytes dico \<Rightarrow> bytes dico \<Rightarrow> (nat \<rightharpoonup> TableObject)" where
  "linkTablesToData E ver psize tdefs dps =
     linkLoop E ver psize tdefs (map snd dps) Map.empty"

subsection \<open>\<^verbatim>\<open>parseCatalog\<close> and \<^verbatim>\<open>getTables\<close>\<close>

text \<open>\<^verbatim>\<open>xs[i]\<close> on an array of values: \<^verbatim>\<open>undefined\<close> past the end (and at \<open>-1\<close>).\<close>

definition valueAt :: "jsval list \<Rightarrow> int \<Rightarrow> jsval" where
  "valueAt xs i = (if 0 \<le> i \<and> nat i < length xs then xs ! nat i else Undefined)"

text \<open>
  The loop of \<^verbatim>\<open>parseCatalog\<close> over \<^verbatim>\<open>names\<close>; \<open>i\<close> is the counter of the source, \<open>-1\<close> at
  the start, counted up only past a name that is a string.  \<open>tablesMapping\<close> is the object
  made by \<^verbatim>\<open>{}\<close>: its own properties, and whether it still has its prototype.
\<close>

fun catalogLoop ::
  "jsval list \<Rightarrow> jsval list \<Rightarrow> jsval list \<Rightarrow> jsval list \<Rightarrow> int \<Rightarrow> jsval sdico \<times> bool
     \<Rightarrow> jsval sdico \<times> bool" where
  "catalogLoop [] types flags ids i tablesMapping = tablesMapping"
| "catalogLoop (tableName # rest) types flags ids i tablesMapping =
     (case tableName of
        Str name \<Rightarrow>
          (let j = i + 1
           in if valueAt types j = Num (Fin 1)
                 \<and> valueAt flags j \<notin> set SYSTEM_TABLE_FLAGS \<and> valueAt flags j = Num (Fin 0)
              then catalogLoop rest types flags ids j
                     (assignProp name (valueAt ids j) tablesMapping)
              else catalogLoop rest types flags ids j tablesMapping)
      | _ \<Rightarrow> catalogLoop rest types flags ids i tablesMapping)"

text \<open>
  The part of \<^verbatim>\<open>parseCatalog\<close> after \<^verbatim>\<open>accessTable.parse()\<close>: the object it returns.
  The four reads are of names that no object inherits.
\<close>

definition catalogObjectOf :: "jsval list sdico \<Rightarrow> error + jsval sdico \<times> bool" where
  "catalogObjectOf cat =
     (case (map_of cat ''Name'', map_of cat ''Type'', map_of cat ''Flags'', map_of cat ''Id'') of
        (Some names, Some types, Some flags, Some ids) \<Rightarrow>
          Inr (catalogLoop names types flags ids (- 1) ([], True))
      | _ \<Rightarrow> Inl CatalogMissingFields)"

text \<open>The own properties of that object.\<close>

definition catalogOf :: "jsval list sdico \<Rightarrow> error + jsval sdico" where
  "catalogOf cat =
     (case catalogObjectOf cat of Inl e \<Rightarrow> Inl e | Inr (tablesMapping, proto) \<Rightarrow> Inr tablesMapping)"

definition parseCatalog ::
  "env \<Rightarrow> nat \<Rightarrow> nat \<Rightarrow> bytes dico \<Rightarrow> bytes dico \<Rightarrow> (nat \<rightharpoonup> TableObject)
     \<Rightarrow> (error + jsval sdico \<times> bool) option" where
  "parseCatalog E ver psize dps tdefs twd =
     (case twd (2 * psize) of
        None \<Rightarrow> Some (Inl FailedToParseTableHeader)
      | Some catalogPage \<Rightarrow>
          (case newAccessTable E catalogPage ver psize dps tdefs of
             None \<Rightarrow> None
           | Some (Inl e) \<Rightarrow> Some (Inl e)
           | Some (Inr accessTable) \<Rightarrow>
               (case parse E accessTable of
                  (Some e, t1) \<Rightarrow> Some (Inl e)
                | (None, t1) \<Rightarrow> Some (catalogObjectOf (parsedTable t1)))))"

definition newAccessParser :: "env \<Rightarrow> bytes \<Rightarrow> (error + AccessParser) option" where
  "newAccessParser E buf =
     (case parseFileHeader E buf of
        Inl e \<Rightarrow> Some (Inl e)
      | Inr (ver, psize) \<Rightarrow>
          (case categorizePages buf psize of
             Inl e \<Rightarrow> Some (Inl e)
           | Inr (tdefs, dps) \<Rightarrow>
               (let twd = linkTablesToData E ver psize tdefs dps
                in case parseCatalog E ver psize dps tdefs twd of
                     None \<Rightarrow> None
                   | Some (Inl e) \<Rightarrow> Some (Inl e)
                   | Some (Inr (cat, proto)) \<Rightarrow>
                       Some (Inr \<lparr>dbData = buf, dbTableDefs = tdefs, dbDataPages = dps,
                                  tablesWithData = twd, dbVersion = ver, dbPageSize = psize,
                                  catalog = cat, catalogProto = proto\<rparr>))))"

definition getTables :: "AccessParser \<Rightarrow> string list" where
  "getTables p = ownKeys (catalog p)"

definition getVersion :: "AccessParser \<Rightarrow> nat" where
  "getVersion p = dbVersion p"

subsection \<open>\<^verbatim>\<open>parseTable\<close>\<close>

text \<open>\<^verbatim>\<open>ToNumber\<close>, applied by \<^verbatim>\<open>tableOffset *= this.pageSize\<close>\<close>

definition toNumber :: "'a host_scheme \<Rightarrow> jsval \<Rightarrow> jsnum" where
  "toNumber h v =
     (case v of Undefined \<Rightarrow> NaN | Null \<Rightarrow> Fin 0 | Num n \<Rightarrow> n | Str s \<Rightarrow> stringToNumber h s)"

text \<open>
  The \<^verbatim>\<open>AccessTable\<close> holds the parser's \<^verbatim>\<open>dataPages\<close>, \<^verbatim>\<open>tableDefs\<close> and table object by
  reference: what it leaves in them is what the parser holds after the call, whether
  \<^verbatim>\<open>parse\<close> returned or threw.
\<close>

definition afterCall :: "AccessParser \<Rightarrow> nat \<Rightarrow> AccessTable \<Rightarrow> AccessParser" where
  "afterCall p key t =
     p\<lparr>dbDataPages := dataPages t, dbTableDefs := tableDefs t,
       tablesWithData := (tablesWithData p)(key \<mapsto> table t)\<rparr>"

text \<open>
  \<^verbatim>\<open>parseTableUnformatted\<close> from \<^verbatim>\<open>tableOffset *= this.pageSize\<close> on, \<open>tableOffset\<close> being
  the product.  A product that names no page offset (\<^verbatim>\<open>NaN\<close> among them) is no key of
  \<^verbatim>\<open>tablesWithData\<close> or \<^verbatim>\<open>tableDefs\<close>, whose keys are page offsets.
\<close>

definition parseTableAt ::
  "env \<Rightarrow> string \<Rightarrow> jsnum \<Rightarrow> AccessParser
     \<Rightarrow> ((error + jsval list sdico) \<times> AccessParser) option" where
  "parseTableAt E tableName tableOffset p =
     (case numKey tableOffset of
        None \<Rightarrow> Some (Inl (CouldNotFindTableOffset tableName tableOffset), p)
      | Some key \<Rightarrow>
          (case tablesWithData p key of
             None \<Rightarrow>
               (case map_of (dbTableDefs p) key of
                  None \<Rightarrow> Some (Inl (CouldNotFindTableOffset tableName tableOffset), p)
                | Some tableDef \<Rightarrow> Some (Inl EmptyTable, p))
           | Some tbl \<Rightarrow>
               (case newAccessTable E tbl (dbVersion p) (dbPageSize p)
                       (dbDataPages p) (dbTableDefs p) of
                  None \<Rightarrow> None
                | Some (Inl e) \<Rightarrow> Some (Inl e, p)
                | Some (Inr accessTable) \<Rightarrow>
                    (case parse E accessTable of
                       (Some e, t1) \<Rightarrow> Some (Inl e, afterCall p key t1)
                     | (None, t1) \<Rightarrow>
                         Some (Inr (parsedTable t1), afterCall p key t1)))))"

text \<open>
  \<^verbatim>\<open>this.catalog[tableName]\<close> is \<^verbatim>\<open>undefined\<close> for a name that the catalog neither has nor
  inherits, and for an own property whose value is \<^verbatim>\<open>undefined\<close>.  Every inherited
  property is a function or the prototype itself: times the page size it is \<^verbatim>\<open>NaN\<close>.
\<close>

definition parseTableUnformatted ::
  "env \<Rightarrow> string \<Rightarrow> AccessParser \<Rightarrow> ((error + jsval list sdico) \<times> AccessParser) option" where
  "parseTableUnformatted E tableName p =
     (case getProp (catalog p) (catalogProto p) tableName of
        Absent \<Rightarrow> Some (Inl (CouldNotFindTable tableName), p)
      | Own Undefined \<Rightarrow> Some (Inl (CouldNotFindTable tableName), p)
      | Own v \<Rightarrow>
          parseTableAt E tableName (jsTimes (toNumber E v) (of_nat (dbPageSize p))) p
      | Inherited \<Rightarrow> parseTableAt E tableName NaN p)"

record Line =
  data :: "jsval sdico"
  rowNumber :: nat

text \<open>
  The rows of \<^verbatim>\<open>parseTable\<close>: as many as the first field has values.  Each \<^verbatim>\<open>line\<close> is
  an object made by \<^verbatim>\<open>{}\<close>, of which \<open>data\<close> keeps the own properties.
\<close>

definition linesOf :: "jsval list sdico \<Rightarrow> Line list" where
  "linesOf tbl =
     (case ownKeys tbl of
        [] \<Rightarrow> []
      | field0 # _ \<Rightarrow>
          (let fields = ownKeys tbl;
               column = (\<lambda>field. case map_of tbl field of None \<Rightarrow> [] | Some vs \<Rightarrow> vs);
               linesNumber = length (column field0)
           in map (\<lambda>i. \<lparr>data = fst (foldl (\<lambda>line field.
                                         assignProp field (valueAt (column field) (int i)) line)
                                      ([], True) fields),
                         rowNumber = i + 1\<rparr>)
                [0 ..< linesNumber]))"

definition parseTable ::
  "env \<Rightarrow> string \<Rightarrow> AccessParser \<Rightarrow> ((error + Line list) \<times> AccessParser) option" where
  "parseTable E name p =
     (case parseTableUnformatted E name p of
        None \<Rightarrow> None
      | Some (Inl e, p1) \<Rightarrow> Some (Inl e, p1)
      | Some (Inr tbl, p1) \<Rightarrow> Some (Inr (linesOf tbl), p1))"

section \<open>An example host and example primitives\<close>

text \<open>
  The closed examples below need one instance of each parameter.  The example host is
  in UTC; its decoders give, for each byte (for UTF-16LE, each low byte of a code unit),
  the character of that code, which is what \<^verbatim>\<open>TextDecoder\<close> gives on ASCII text; a
  string converts to \<^verbatim>\<open>NaN\<close>.
\<close>

definition latin1 :: "bytes \<Rightarrow> string" where
  "latin1 bs = map (\<lambda>b. char_of (unat b)) bs"

fun lowBytes :: "bytes \<Rightarrow> string" where
  "lowBytes (lo # hi # rest) = char_of (unat lo) # lowBytes rest"
| "lowBytes _ = []"

definition exampleHost :: host where
  "exampleHost = \<lparr>decodeUtf8 = latin1, decodeWindows1252 = latin1, decodeUtf16le = lowBytes,
                   localOffset = 0, stringToNumber = (\<lambda>s. NaN)\<rparr>"

text \<open>
  The example primitives read the fields \<^verbatim>\<open>index.ts\<close> uses from fixed positions.

  Modelled from the spec: \<^verbatim>\<open>parseRelativeObjectMetadataStruct\<close> is missing from the
  sources; by section 4.7 the metadata read from the reversed record is a count of
  variable fields, on Jet 3 the jump table, the offsets and the end of the variable data
  (\<^verbatim>\<open>varLenCount\<close>), 8-bit numbers on Jet 3 and 16-bit ones after it.

  Modelled from the spec: \<^verbatim>\<open>MEMO.parse\<close> is missing from the sources; by section 4.8 a
  memo header is 12 bytes, \<^verbatim>\<open>memoLength\<close> and \<^verbatim>\<open>recordPointer\<close> the first two 32-bit
  numbers.

  The other primitives have no layout in the spec; the examples take the record count
  and offsets of a data page from the positions of a Jet 3 page, the Jet version from
  byte \<open>0x14\<close> of the file, and give every table the same two columns.
\<close>

definition be_nat :: "bytes \<Rightarrow> nat" where
  "be_nat bs = le_nat (rev bs)"

fun pairs16 :: "bytes \<Rightarrow> nat list" where
  "pairs16 (a # b # rest) = be_nat [a, b] # pairs16 rest"
| "pairs16 _ = []"

definition exampleMetadata :: "bytes \<Rightarrow> int option \<Rightarrow> nat \<Rightarrow> error + Metadata" where
  "exampleMetadata buf jumpCount ver =
     (case jumpCount of
        Some c \<Rightarrow>
          (case buf of
             [] \<Rightarrow> Inl PrimitiveError
           | n # rest \<Rightarrow>
               if length rest < nat c + unat n + 1 then Inl PrimitiveError
               else Inr \<lparr>variableLengthFieldCount = unat n,
                         variableLengthJumpTable = map unat (take (nat c) rest),
                         variableLengthFieldOffsets =
                           map unat (take (unat n) (drop (nat c) rest)),
                         varLenCount = unat (rest ! (nat c + unat n)),
                         relativeMetadataEnd = int (nat c + unat n + 2)\<rparr>)
      | None \<Rightarrow>
          (if length buf < 2 \<or> length buf < 2 * be_nat (take 2 buf) + 4
           then Inl PrimitiveError
           else Inr \<lparr>variableLengthFieldCount = be_nat (take 2 buf),
                     variableLengthJumpTable = [],
                     variableLengthFieldOffsets =
                       pairs16 (take (2 * be_nat (take 2 buf)) (drop 2 buf)),
                     varLenCount =
                       be_nat (take 2 (drop (2 * be_nat (take 2 buf) + 2) buf)),
                     relativeMetadataEnd = int (2 * be_nat (take 2 buf) + 4)\<rparr>))"

definition exampleMemo :: "bytes \<Rightarrow> error + Memo" where
  "exampleMemo buf =
     (if length buf < 12 then Inl PrimitiveError
      else Inr \<lparr>memoLength = le_nat (take 4 buf), recordPointer = le_nat (take 4 (drop 4 buf)),
                memoEnd = 12\<rparr>)"

fun pairs16le :: "bytes \<Rightarrow> nat list" where
  "pairs16le (a # b # rest) = le_nat [a, b] # pairs16le rest"
| "pairs16le _ = []"

definition exampleDataPageHeader :: "bytes \<Rightarrow> nat \<Rightarrow> error + DataPageHeader" where
  "exampleDataPageHeader buf ver =
     (if length buf < 10 \<or> length buf < 10 + 2 * le_nat (take 2 (drop 8 buf))
      then Inl PrimitiveError
      else Inr \<lparr>owner = le_nat (take 4 (drop 4 buf)),
                recordOffsets =
                  pairs16le (take (2 * le_nat (take 2 (drop 8 buf))) (drop 10 buf))\<rparr>)"

definition exampleTdefHeader :: "bytes \<Rightarrow> error + TDefHeader" where
  "exampleTdefHeader buf =
     (if length buf < 8 then Inl PrimitiveError
      else Inr \<lparr>headerEnd = 8, nextPagePtr = le_nat (take 4 (drop 4 buf))\<rparr>)"

definition columnA :: Column where
  "columnA = \<lparr>type = TInt8, columnID = 0, columnIndex = 0, fixedOffset = 0,
              fixedLength = True, colNameStr = ''A''\<rparr>"

definition columnB :: Column where
  "columnB = \<lparr>type = TText, columnID = 1, columnIndex = 1, fixedOffset = 0,
              fixedLength = False, colNameStr = ''B''\<rparr>"

definition exampleTableHead :: "bytes \<Rightarrow> nat \<Rightarrow> error + TableHeader" where
  "exampleTableHead buf ver =
     (case exampleTdefHeader buf of
        Inl e \<Rightarrow> Inl e
      | Inr th \<Rightarrow> Inr \<lparr>TDEF_header = th, tDefHeaderEnd = 8, realIndexCount = 0,
                        columnCount = 2, variableColumns = 1\<rparr>)"

definition exampleEnv :: env where
  "exampleEnv =
     \<lparr>decodeUtf8 = latin1, decodeWindows1252 = latin1, decodeUtf16le = lowBytes,
      localOffset = 0, stringToNumber = (\<lambda>s. NaN),
      ACCESSHEADER_parse =
        (\<lambda>buf. case elemAt buf 0x14 of None \<Rightarrow> Inl PrimitiveError | Some b \<Rightarrow> Inr (unat b)),
      TDEF_HEADER_parse = exampleTdefHeader,
      MEMO_parse = exampleMemo,
      parseDataPageHeader = exampleDataPageHeader,
      parseTableHead = exampleTableHead,
      parseTableData = (\<lambda>buf indexCount colCount ver. Inr ([columnA, columnB], [''A'', ''B''])),
      parseRelativeObjectMetadataStruct = exampleMetadata\<rparr>"

text \<open>
  A Jet 3 table with the columns A (Int8, fixed length, at offset 0) and B (Text,
  variable length), no rows parsed yet.
\<close>

definition exampleTable :: AccessTable where
  "exampleTable =
     \<lparr>version = 3, pageSize = 0x800, dataPages = [], tableDefs = [],
      table = \<lparr>pageValue = [], linkedPages = []\<rparr>, parsedTable = [],
      columns = [(0, columnA), (1, columnB)],
      tableHeader = \<lparr>TDEF_header = \<lparr>headerEnd = 8, nextPagePtr = 0\<rparr>, tDefHeaderEnd = 8,
                      realIndexCount = 0, columnCount = 2, variableColumns = 1\<rparr>\<rparr>"

text \<open>An example row of the example table: A is 42, B is the text \<open>hi\<close>, bit 0 of the bitmap is set.\<close>

definition exampleRow :: bytes where
  "exampleRow = [0x02, 0x2A, 0x68, 0x69, 0x04, 0x02, 0x01, 0x01]"

text \<open>
  A second row of the example table, whose metadata does not parse to one variable
  field: the count byte is 3, and the byte 1 is found at index 1 of the reversed record.
\<close>

definition droppedRow :: bytes where
  "droppedRow = [0x09, 0x09, 0x09, 0x01, 0x03, 0x00]"

text \<open>
  A data page of table-definition page 3 with two record offsets, 20 and 14: the example
  row ends the page, the second row lies before it.
\<close>

definition examplePage :: bytes where
  "examplePage =
     [0x01, 0x01, 0x00, 0x00, 0x03, 0x00, 0x00, 0x00, 0x02, 0x00, 0x14, 0x00, 0x0E, 0x00]
     @ droppedRow @ exampleRow"

definition exampleTdefPage :: bytes where
  "exampleTdefPage = [0x02, 0x01, 0x00, 0x00, 0x00, 0x00, 0x00, 0x00]"

text \<open>
  A Jet 3 parser whose catalog lists the table \<open>T\<close> at page 3, with the example page as
  its one data page, and the table \<open>Empty\<close> at page 5, with no data page.
\<close>

definition exampleParser :: AccessParser where
  "exampleParser =
     \<lparr>dbData = [],
      dbTableDefs = [(0x1800, exampleTdefPage), (0x2800, exampleTdefPage)],
      dbDataPages = [(0x2000, examplePage)],
      tablesWithData = linkTablesToData exampleEnv 3 0x800
                         [(0x1800, exampleTdefPage), (0x2800, exampleTdefPage)]
                         [(0x2000, examplePage)],
      dbVersion = 3, dbPageSize = 0x800,
      catalog = [(''T'', Num (Fin 3)), (''Empty'', Num (Fin 5))],
      catalogProto = True\<rparr>"

text \<open>
  The example table declared with two variable-length columns, and two rows for it whose
  metadata count byte is 5: in the first the byte 2 is found at index 2 of the reversed
  record, in the second at index 1, followed by 0.  A third row does not hold the byte.
\<close>

definition twoVariableTable :: AccessTable where
  "twoVariableTable =
     exampleTable\<lparr>tableHeader := (tableHeader exampleTable)\<lparr>variableColumns := 2\<rparr>\<rparr>"

definition recoveredRow :: bytes where
  "recoveredRow = [0x07, 0x07, 0x07, 0x00, 0x02, 0x09, 0x05, 0x00]"

definition unrecoveredRow :: bytes where
  "unrecoveredRow = [0x09, 0x09, 0x09, 0x09, 0x00, 0x02, 0x05, 0x00]"

definition notFoundRow :: bytes where
  "notFoundRow = [0x09, 0x09, 0x09, 0x09, 0x09, 0x09, 0x05, 0x00]"

text \<open>A data page whose header announces more record offsets than the page holds.\<close>

definition brokenPage :: bytes where
  "brokenPage = [0x01, 0x01, 0x00, 0x00, 0x03, 0x00, 0x00, 0x00, 0xFF, 0xFF, 0x00, 0x00]"

text \<open>
  The example table over two data pages: the broken page at offset 0 and the example
  page, whose header holds two record offsets, at offset \<open>0x800\<close>.
\<close>

definition brokenTable :: AccessTable where
  "brokenTable = exampleTable\<lparr>dataPages := [(0, brokenPage), (0x800, examplePage)]\<rparr>"

text \<open>
  The parsed columns of a catalog table of two rows: the first has no name, Type 1 and
  Flags 0; the second is named \<open>A\<close> and has Type 5 and the system flag 2.
\<close>

definition misalignedCatalog :: "jsval list sdico" where
  "misalignedCatalog =
     [(''Name'', [Null, Str ''A'']),
      (''Type'', [Num (Fin 1), Num (Fin 5)]),
      (''Flags'', [Num (Fin 0), Num (Fin 2)]),
      (''Id'', [Num (Fin 7), Num (Fin 8)])]"


section \<open>Notions the claims are stated with\<close>

text \<open>\<^verbatim>\<open>parsedTable[name]\<close>, read as the empty array while the name has no array yet.\<close>

definition columnValues :: "AccessTable \<Rightarrow> string \<Rightarrow> jsval list" where
  "columnValues t name = (case map_of (parsedTable t) name of None \<Rightarrow> [] | Some vs \<Rightarrow> vs)"

text \<open>
  Bit \<open>i\<close> of the null bitmap of a record as the spec numbers it: the bitmap is the last
  \<open>ceil(columnCount / 8)\<close> bytes of the record, bit \<open>i\<close> is bit \<open>i mod 8\<close>, counted from the
  least significant one, of its byte \<open>i div 8\<close>.  A bit past the bitmap is not set.
\<close>

definition nullBitmapBit :: "bytes \<Rightarrow> nat \<Rightarrow> nat \<Rightarrow> bool" where
  "nullBitmapBit rec colCount i =
     (let nullBytes = (colCount + 7) div 8;
          bitmap = drop (length rec - nullBytes) rec
      in i < 8 * nullBytes \<and> bit (bitmap ! (i div 8)) (i mod 8))"

text \<open>Two states of an \<^verbatim>\<open>AccessTable\<close> that differ at most in \<^verbatim>\<open>parsedTable\<close>.\<close>

definition sameButParsed :: "AccessTable \<Rightarrow> AccessTable \<Rightarrow> bool" where
  "sameButParsed t t' =
     (version t' = version t \<and> pageSize t' = pageSize t \<and> dataPages t' = dataPages t
      \<and> tableDefs t' = tableDefs t \<and> table t' = table t \<and> columns t' = columns t
      \<and> tableHeader t' = tableHeader t)"

text \<open>
  Whether \<^verbatim>\<open>parseRow\<close> drops the variable-length part of a row: the metadata parser
  returned \<^verbatim>\<open>undefined\<close>.
\<close>

definition rowDropped :: "env \<Rightarrow> bytes \<Rightarrow> AccessTable \<Rightarrow> bool" where
  "rowDropped E rec t =
     (parseDynamicLengthRecordsMetadata E (rev rec) rec
        ((columnCount (tableHeader t) + 7) div 8) t = Inr None)"

section \<open>Evaluation lemmas\<close>

text \<open>Rules that let the simplifier compute with the definitions above on numerals.\<close>

lemma bitlen_numeral [simp]:
  "bitlen 0 = 0" "bitlen 1 = 1" "bitlen (Suc 0) = 1"
  "bitlen (numeral (Num.Bit0 k)) = Suc (bitlen (numeral k))"
  "bitlen (numeral (Num.Bit1 k)) = Suc (bitlen (numeral k))"
  by (simp_all add: bitlen.simps [of "numeral (Num.Bit0 k)"]
      bitlen.simps [of "numeral (Num.Bit1 k)"] bitlen.simps [of 0]
      bitlen.simps [of 1] bitlen.simps [of "Suc 0"])

lemma floor_rat_numeral [simp]:
  "\<lfloor>numeral a / numeral b :: rat\<rfloor> = numeral a div numeral b"
  "\<lfloor>- (numeral a / numeral b) :: rat\<rfloor> = (- numeral a) div numeral b"
  "\<lfloor>1 / numeral b :: rat\<rfloor> = 1 div numeral b"
  "\<lfloor>- (1 / numeral b) :: rat\<rfloor> = (- 1) div numeral b"
  using floor_divide_of_int_eq [of "numeral a" "numeral b", where ?'a = rat]
        floor_divide_of_int_eq [of "- numeral a" "numeral b", where ?'a = rat]
        floor_divide_of_int_eq [of "1" "numeral b", where ?'a = rat]
        floor_divide_of_int_eq [of "- 1" "numeral b", where ?'a = rat]
  by simp_all

lemma ceiling_rat_numeral [simp]:
  "\<lceil>numeral a / numeral b :: rat\<rceil> = - ((- numeral a) div numeral b)"
  "\<lceil>- (numeral a / numeral b) :: rat\<rceil> = - (numeral a div numeral b)"
  "\<lceil>1 / numeral b :: rat\<rceil> = - ((- 1) div numeral b)"
  by (simp_all add: ceiling_def)

lemmas fl64_eval = fl64_def ilog2_def pow2_def roundHalfEven_def Let_def

lemmas number_eval = jsFloor_def jsMod1_def jsTrunc_def jsTimes_def jsDivide_def
  jsPlus_def toInteger_def

lemmas dataview_eval = getUint_def getInt_def toSigned_def getFloat32_def getFloat64_def
  decodeFloat_def

lemmas date_eval = epochDate_def getDate_def setDate_def setHours_def toISOString_def
  civilFromDays_def daysFromCivil_def msPerDay_def timeClip_def

lemma fl64_small [simp]:
  "fl64 0 = Fin 0" "fl64 12 = Fin 12" "fl64 30 = Fin 30" "fl64 31 = Fin 31"
  "fl64 320 = Fin 320" "fl64 12345 = Fin 12345" "fl64 3200000 = Fin 3200000"
  by (simp_all add: fl64_eval)

lemma fl64_12345_10000:
  "fl64 (12345 / 10000) = Fin (5559693739988877 / 4503599627370496)"
  "fl64 (2469 / 2000) = Fin (5559693739988877 / 4503599627370496)"
  by (simp_all add: fl64_eval)

lemma decDigits_unfold:
  "decDigits 2 n = [digitChar (n div 10 mod 10), digitChar (n mod 10)]"
  "decDigits 3 n = [digitChar (n div 10 div 10 mod 10), digitChar (n div 10 mod 10),
                    digitChar (n mod 10)]"
  "decDigits 4 n = [digitChar (n div 10 div 10 div 10 mod 10),
                    digitChar (n div 10 div 10 mod 10),
                    digitChar (n div 10 mod 10), digitChar (n mod 10)]"
proof -
  have two: "(2::nat) = Suc (Suc 0)" and three: "(3::nat) = Suc (Suc (Suc 0))"
    and four: "(4::nat) = Suc (Suc (Suc (Suc 0)))"
    by simp_all
  show "decDigits 2 n = [digitChar (n div 10 mod 10), digitChar (n mod 10)]"
    by (simp only: two decDigits.simps append.simps)
  show "decDigits 3 n = [digitChar (n div 10 div 10 mod 10), digitChar (n div 10 mod 10),
                    digitChar (n mod 10)]"
    by (simp only: three decDigits.simps append.simps)
  show "decDigits 4 n = [digitChar (n div 10 div 10 div 10 mod 10),
                    digitChar (n div 10 div 10 mod 10),
                    digitChar (n div 10 mod 10), digitChar (n mod 10)]"
    by (simp only: four decDigits.simps append.simps)
qed

lemma epochDate_value: "epochDate = Some (- 2209118400000)"
  by (simp add: epochDate_def daysFromCivil_def msPerDay_def)

lemma civilFromDays_epoch:
  "civilFromDays (- 25569) = (1899, 12, 30)" "civilFromDays (- 25568) = (1899, 12, 31)"
  unfolding civilFromDays_def Let_def by simp_all

lemma daysFromCivil_epoch_month: "daysFromCivil 1899 12 1 = - 25598"
  by (simp add: daysFromCivil_def)

lemma getFloat64_examples:
  "getFloat64 [0, 0, 0, 0, 0, 0, 0, 0] 0 = Inr (Fin 0)"
  "getFloat64 [0, 0, 0, 0, 0, 0, 0xF8, 0x3F] 0 = Inr (Fin (3 / 2))"
  by (simp_all add: dataview_eval pow2_def)

lemma getDate_epoch:
  assumes "localOffset h = 0"
  shows "getDate h epochDate = Fin 30"
  using assms by (simp add: getDate_def epochDate_value msPerDay_def civilFromDays_epoch)

text \<open>The payload 0.0 in UTC: day 30 + 0, then the time of day set to 00:00:00.\<close>

lemma parseDateTime_zero:
  assumes "localOffset h = 0"
  shows "parseDateTime h [0, 0, 0, 0, 0, 0, 0, 0] = Inr (Str ''1899-12-30T00:00:00.000Z'')"
proof -
  have d1: "setDate h epochDate (Fin 30) = Some (- 2209118400000)"
    using assms
    by (simp add: setDate_def epochDate_value toInteger_def jsTrunc_def msPerDay_def
        civilFromDays_epoch daysFromCivil_epoch_month timeClip_def)
  have d2: "setHours h (Some (- 2209118400000)) (Fin 0) (Fin 0) (Fin 0)
              = Some (- 2209161600000)"
    using assms by (simp add: setHours_def toInteger_def jsTrunc_def msPerDay_def timeClip_def)
  have s: "toISOString (Some (- 2209161600000)) = Inr ''1899-12-30T00:00:00.000Z''"
    by (simp add: toISOString_def msPerDay_def civilFromDays_epoch decDigits_unfold
        digitChar_def)
  show ?thesis
    by (simp add: parseDateTime_def getFloat64_examples jsFloor_def jsMod1_def jsTrunc_def
        jsTimes_def jsPlus_def getDate_epoch [OF assms] d1 d2 s)
qed

text \<open>The payload 1.5 in UTC: day 30 + 1, then the time of day set to 12:00:00.\<close>

lemma parseDateTime_one_and_half:
  assumes "localOffset h = 0"
  shows "parseDateTime h [0, 0, 0, 0, 0, 0, 0xF8, 0x3F]
           = Inr (Str ''1899-12-31T12:00:00.000Z'')"
proof -
  have d1: "setDate h epochDate (Fin 31) = Some (- 2209032000000)"
    using assms
    by (simp add: setDate_def epochDate_value toInteger_def jsTrunc_def msPerDay_def
        civilFromDays_epoch daysFromCivil_epoch_month timeClip_def)
  have d2: "setHours h (Some (- 2209032000000)) (Fin 12) (Fin 0) (Fin 0)
              = Some (- 2209032000000)"
    using assms by (simp add: setHours_def toInteger_def jsTrunc_def msPerDay_def timeClip_def)
  have s: "toISOString (Some (- 2209032000000)) = Inr ''1899-12-31T12:00:00.000Z''"
    by (simp add: toISOString_def msPerDay_def civilFromDays_epoch decDigits_unfold
        digitChar_def)
  show ?thesis
    by (simp add: parseDateTime_def getFloat64_examples jsFloor_def jsMod1_def jsTrunc_def
        jsTimes_def jsPlus_def getDate_epoch [OF assms] d1 d2 s)
qed

lemma parseMoney_examples:
  "parseMoney [0x00, 0xD4, 0x30, 0x00, 0x00, 0x00, 0x00, 0x00] = Inr (Num (Fin 320))"
  "parseMoney [0x39, 0x30, 0x00, 0x00, 0x00, 0x00, 0x00, 0x00]
     = Inr (Num (fl64 (12345 / 10000)))"
  by (simp_all add: parseMoney_def getUint_def getInt_def toSigned_def jsPlus_def
      jsDivide_def)

section \<open>Lemmas about rows\<close>

lemmas slice_eval = slice1_def slice2_def relIndex_def sliceOpt_def

lemmas dict_eval = getProp_def assignProp_def objectPrototypeKeys_def

lemma map_of_sdicoSet: "map_of (sdicoSet k v d) k' = (if k' = k then Some v else map_of d k')"
  by (induction d) auto

lemma getProp_own [simp]: "map_of d k = Some v \<Longrightarrow> getProp d proto k = Own v"
  by (simp add: getProp_def)

lemma getProp_Own_iff: "getProp d proto k = Own v \<longleftrightarrow> map_of d k = Some v"
  by (simp add: getProp_def split: option.splits)

lemma columnValues_ensure [simp]: "columnValues (ensureColumn n t) name = columnValues t name"
  by (auto simp: columnValues_def ensureColumn_def getProp_def map_of_sdicoSet
      split: option.splits)

lemma columnValues_pushed:
  assumes "pushValue n v t = (None, t1)"
  shows "columnValues t1 name
           = (if name = n then columnValues t n @ [v] else columnValues t name)"
  using assms
  by (auto simp: columnValues_def pushValue_def getProp_def map_of_sdicoSet
      split: option.splits if_splits)

lemma columnValues_push:
  assumes "pushValue n v (ensureColumn n t) = (None, t1)"
  shows "columnValues t1 name
           = (if name = n then columnValues t n @ [v] else columnValues t name)"
  using columnValues_pushed [OF assms, of name] by simp

lemma sameButParsed_refl [simp]: "sameButParsed t t"
  by (simp add: sameButParsed_def)

lemma sameButParsed_trans: "sameButParsed t t1 \<Longrightarrow> sameButParsed t1 t2 \<Longrightarrow> sameButParsed t t2"
  by (simp add: sameButParsed_def)

lemma sameButParsed_push [simp]:
  "sameButParsed t (snd (pushValue n v t))" "sameButParsed t (ensureColumn n t)"
  by (simp_all add: sameButParsed_def pushValue_def ensureColumn_def split: lookup.splits)

lemma sameButParsed_push_ensure [simp]:
  "sameButParsed t (snd (pushValue n v (ensureColumn n t)))"
  by (rule sameButParsed_trans [of _ "ensureColumn n t"]) simp_all

lemma sameButParsed_pushed:
  "pushValue n v (ensureColumn n t) = (e, t1) \<Longrightarrow> sameButParsed t t1"
  using sameButParsed_push_ensure [of t n v] by simp

lemma nullTableOf_nth:
  "i < 8 * length buf \<Longrightarrow> nullTableOf buf ! i = bit (buf ! (i div 8)) (i mod 8)"
  by (simp add: nullTableOf_def bit_iff_and_push_bit_not_eq_0 mult.commute)

lemma length_nullTableOf [simp]: "length (nullTableOf buf) = 8 * length buf"
  by (simp add: nullTableOf_def)

lemma parseType_not_Null: "parseType h d b l v \<noteq> Inr Null"
  by (auto simp: parseType_def parseMoney_def parseDateTime_def parseText_def Let_def
      split: sum.splits)

lemma parseMemo_not_Null: "parseMemo E d c t \<noteq> Inr Null"
  by (auto simp: parseMemo_def parseType_not_Null Let_def split: sum.splits option.splits)

lemma dynamicValue_not_Null: "dynamicValue E d c t \<noteq> Inr Null"
  by (auto simp: dynamicValue_def parseType_not_Null parseMemo_not_Null split: sum.splits)

lemma parseFixedLengthData_ok:
  assumes "parseFixedLengthData E r c nt t = (None, t1)"
  shows "columnID c < length nt
         \<and> (\<exists>v. pushValue (colNameStr c) v (ensureColumn (colNameStr c) t) = (None, t1)
                \<and> ((v = Null) = nt ! columnID c))"
  using assms parseType_not_Null [of E "type c" "slice1 r (int (fixedOffset c))" None "version t"]
  by (auto simp: parseFixedLengthData_def Let_def split: if_splits sum.splits)

lemma parseFixedLengthData_same: "sameButParsed t (snd (parseFixedLengthData E r c nt t))"
  by (auto simp: parseFixedLengthData_def Let_def split: if_splits sum.splits)

lemma fixedLoop_same: "sameButParsed t (snd (fixedLoop E r nt cs t))"
proof (induction cs arbitrary: t)
  case Nil
  show ?case by simp
next
  case (Cons c cs)
  show ?case
  proof (cases "fixedLength c")
    case False
    then show ?thesis using Cons.IH [of t] by simp
  next
    case True
    obtain e t1 where p: "parseFixedLengthData E r c nt t = (e, t1)"
      by (cases "parseFixedLengthData E r c nt t")
    have s1: "sameButParsed t t1"
      using parseFixedLengthData_same [of t E r c nt] p by simp
    show ?thesis
    proof (cases e)
      case None
      then show ?thesis
        using True p s1 Cons.IH [of t1] by (auto intro: sameButParsed_trans)
    next
      case (Some err)
      then show ?thesis using True p s1 by simp
    qed
  qed
qed

lemma fixedLoop_ok:
  assumes "fixedLoop E r nt cs t = (None, t')"
  shows "\<exists>vs. columnValues t' name = columnValues t name @ vs
           \<and> list_all2 (\<lambda>c v. columnID c < length nt \<and> ((v = Null) = nt ! columnID c))
                (filter (\<lambda>c. fixedLength c \<and> colNameStr c = name) cs) vs"
  using assms
proof (induction cs arbitrary: t)
  case Nil
  then show ?case by simp
next
  case (Cons c cs)
  show ?case
  proof (cases "fixedLength c")
    case False
    then show ?thesis using Cons.IH [of t] Cons.prems by simp
  next
    case True
    obtain e t1 where p: "parseFixedLengthData E r c nt t = (e, t1)"
      by (cases "parseFixedLengthData E r c nt t")
    with True Cons.prems have e: "e = None" and rest: "fixedLoop E r nt cs t1 = (None, t')"
      by (auto split: option.splits)
    from parseFixedLengthData_ok [of E r c nt t t1] p e obtain v where
      idOk: "columnID c < length nt"
      and t1: "pushValue (colNameStr c) v (ensureColumn (colNameStr c) t) = (None, t1)"
      and v: "(v = Null) = nt ! columnID c"
      by auto
    from Cons.IH [OF rest] obtain vs where
      vs: "columnValues t' name = columnValues t1 name @ vs"
      and rel: "list_all2 (\<lambda>c v. columnID c < length nt \<and> ((v = Null) = nt ! columnID c))
                  (filter (\<lambda>c. fixedLength c \<and> colNameStr c = name) cs) vs"
      by auto
    show ?thesis
    proof (cases "colNameStr c = name")
      case True
      have "columnValues t' name = columnValues t name @ (v # vs)"
        using vs columnValues_push [OF t1, of name] True by simp
      moreover have "list_all2 (\<lambda>c v. columnID c < length nt \<and> ((v = Null) = nt ! columnID c))
                  (filter (\<lambda>c. fixedLength c \<and> colNameStr c = name) (c # cs)) (v # vs)"
        using rel idOk v True \<open>fixedLength c\<close> by simp
      ultimately show ?thesis by blast
    next
      case False
      have "columnValues t' name = columnValues t name @ vs"
        using vs columnValues_push [OF t1, of name] False by simp
      then show ?thesis using rel False by auto
    qed
  qed
qed

lemma dynamicLoop_step:
  assumes "dynamicLoop E r md nt (c # cs) i j t = (None, t')"
  shows "\<exists>v i' j' t1. pushValue (colNameStr c) v (ensureColumn (colNameStr c) t) = (None, t1)
           \<and> dynamicLoop E r md nt cs i' j' t1 = (None, t')
           \<and> ((v = Null) = (columnID c < length nt \<and> nt ! columnID c))"
proof -
  let ?goal = "\<exists>v i' j' t1.
      pushValue (colNameStr c) v (ensureColumn (colNameStr c) t) = (None, t1)
      \<and> dynamicLoop E r md nt cs i' j' t1 = (None, t')
      \<and> ((v = Null) = (columnID c < length nt \<and> nt ! columnID c))"
  have nn: "\<And>d v. dynamicValue E d c t = Inr v \<Longrightarrow> v \<noteq> Null"
    using dynamicValue_not_Null [of E _ c t] by auto
  have finish: "\<And>v i' j'.
      (case pushValue (colNameStr c) v (ensureColumn (colNameStr c) t) of
         (Some e, t1) \<Rightarrow> (Some e, t1)
       | (None, t1) \<Rightarrow> dynamicLoop E r md nt cs i' j' t1) = (None, t')
      \<Longrightarrow> (v = Null) = (columnID c < length nt \<and> nt ! columnID c)
      \<Longrightarrow> ?goal"
  proof -
    fix v i' j'
    assume a: "(case pushValue (colNameStr c) v (ensureColumn (colNameStr c) t) of
         (Some e, t1) \<Rightarrow> (Some e, t1)
       | (None, t1) \<Rightarrow> dynamicLoop E r md nt cs i' j' t1) = (None, t')"
      and v: "(v = Null) = (columnID c < length nt \<and> nt ! columnID c)"
    obtain e t1 where p: "pushValue (colNameStr c) v (ensureColumn (colNameStr c) t) = (e, t1)"
      by (cases "pushValue (colNameStr c) v (ensureColumn (colNameStr c) t)")
    with a have "e = None" and "dynamicLoop E r md nt cs i' j' t1 = (None, t')"
      by (cases e; simp)+
    with p v show ?goal by blast
  qed
  show ?thesis
    using assms
    apply (simp only: dynamicLoop.simps Let_def)
    apply (split if_splits)
     apply (erule finish)
     apply simp
    apply (split if_splits)
     apply (erule finish)
     apply simp
    apply (split sum.splits)
     apply simp
    apply (frule nn)
    apply (erule finish)
    apply simp
    done
qed

lemma dynamicLoop_ok:
  assumes "dynamicLoop E r md nt cs i j t = (None, t')"
  shows "\<exists>vs. columnValues t' name = columnValues t name @ vs
           \<and> list_all2 (\<lambda>c v. (v = Null) = (columnID c < length nt \<and> nt ! columnID c))
                (filter (\<lambda>c. colNameStr c = name) cs) vs"
  using assms
proof (induction cs arbitrary: i j t)
  case Nil
  then show ?case by simp
next
  case (Cons c cs)
  from dynamicLoop_step [OF Cons.prems] obtain v i' j' t1 where
    t1: "pushValue (colNameStr c) v (ensureColumn (colNameStr c) t) = (None, t1)"
    and rest: "dynamicLoop E r md nt cs i' j' t1 = (None, t')"
    and v: "(v = Null) = (columnID c < length nt \<and> nt ! columnID c)"
    by blast
  from Cons.IH [OF rest] obtain vs where
    vs: "columnValues t' name = columnValues t1 name @ vs"
    and rel: "list_all2 (\<lambda>c v. (v = Null) = (columnID c < length nt \<and> nt ! columnID c))
                (filter (\<lambda>c. colNameStr c = name) cs) vs"
    by auto
  show ?case
  proof (cases "colNameStr c = name")
    case True
    have "columnValues t' name = columnValues t name @ (v # vs)"
      using vs columnValues_push [OF t1, of name] True by simp
    moreover have "list_all2 (\<lambda>c v. (v = Null) = (columnID c < length nt \<and> nt ! columnID c))
                (filter (\<lambda>c. colNameStr c = name) (c # cs)) (v # vs)"
      using rel v True by simp
    ultimately show ?thesis by blast
  next
    case False
    have "columnValues t' name = columnValues t name @ vs"
      using vs columnValues_push [OF t1, of name] False by simp
    then show ?thesis using rel False by auto
  qed
qed

lemma dynamicLoop_same: "sameButParsed t (snd (dynamicLoop E r md nt cs i j t))"
proof (induction cs arbitrary: i j t)
  case Nil
  show ?case by simp
next
  case (Cons c cs)
  have cont: "\<And>v i' j'. sameButParsed t
       (snd (case pushValue (colNameStr c) v (ensureColumn (colNameStr c) t) of
               (Some e, t1) \<Rightarrow> (Some e, t1)
             | (None, t1) \<Rightarrow> dynamicLoop E r md nt cs i' j' t1))"
  proof -
    fix v i' j'
    obtain e t1 where p: "pushValue (colNameStr c) v (ensureColumn (colNameStr c) t) = (e, t1)"
      by (cases "pushValue (colNameStr c) v (ensureColumn (colNameStr c) t)")
    have s: "sameButParsed t t1"
      using p by (rule sameButParsed_pushed)
    show "sameButParsed t
       (snd (case pushValue (colNameStr c) v (ensureColumn (colNameStr c) t) of
               (Some e, t1) \<Rightarrow> (Some e, t1)
             | (None, t1) \<Rightarrow> dynamicLoop E r md nt cs i' j' t1))"
    proof (cases e)
      case None
      then show ?thesis
        using p s Cons.IH [of t1 i' j'] by (auto intro: sameButParsed_trans)
    next
      case (Some err)
      then show ?thesis using p s by simp
    qed
  qed
  have ifI: "\<And>b x y. sameButParsed t (snd x) \<Longrightarrow> sameButParsed t (snd y)
               \<Longrightarrow> sameButParsed t (snd (if b then x else y))"
    by simp
  have sumI: "\<And>s f. (\<And>v. sameButParsed t (snd (f v)))
               \<Longrightarrow> sameButParsed t (snd (case s of Inl e \<Rightarrow> (Some e, t) | Inr v \<Rightarrow> f v))"
    by (simp split: sum.splits)
  show ?case
    apply (simp only: dynamicLoop.simps Let_def)
    apply (rule ifI)
     apply (rule cont)
    apply (rule ifI)
     apply (rule cont)
    apply (rule sumI)
    apply (rule cont)
    done
qed

lemma metadata_same:
  assumes "sameButParsed t t1"
  shows "parseDynamicLengthRecordsMetadata E rr r n t1
           = parseDynamicLengthRecordsMetadata E rr r n t"
proof -
  have v: "version t1 = version t" and h: "tableHeader t1 = tableHeader t"
    using assms by (simp_all add: sameButParsed_def)
  show ?thesis
    unfolding parseDynamicLengthRecordsMetadata_def v h ..
qed

lemma parseRow_same: "sameButParsed t (snd (parseRow E r t))"
proof -
  let ?nt = "nullTableOf (slice1 r (int (length r) - int ((columnCount (tableHeader t) + 7) div 8)))"
  let ?r1 = "if 3 < version t then slice1 r 2 else slice1 r 1"
  obtain e t1 where f: "fixedLoop E ?r1 ?nt (map snd (columns t)) t = (e, t1)"
    by (cases "fixedLoop E ?r1 ?nt (map snd (columns t)) t")
  have s1: "sameButParsed t t1"
    using fixedLoop_same [of t E ?r1 ?nt "map snd (columns t)"] f by simp
  have s2: "\<And>md cs. sameButParsed t (snd (dynamicLoop E r md ?nt cs 0 0 t1))"
    using s1 dynamicLoop_same sameButParsed_trans by blast
  show ?thesis
    using f s1 s2
    by (auto simp: parseRow_def Let_def parseDynamicLengthData_def
        split: option.splits sum.splits)
qed

lemma slice1_tail:
  "n \<le> length xs \<Longrightarrow> slice1 xs (int (length xs) - int n) = drop (length xs - n) xs"
  by (simp add: slice1_def relIndex_def nat_diff_distrib')

lemma nullTable_bit:
  assumes "n = (cc + 7) div 8" and "n \<le> length r"
  shows "(i < length (nullTableOf (slice1 r (int (length r) - int n)))
           \<and> nullTableOf (slice1 r (int (length r) - int n)) ! i)
         = nullBitmapBit r cc i"
  using assms by (auto simp: slice1_tail nullBitmapBit_def Let_def nullTableOf_nth)


lemma parseRow_cases:
  assumes "parseRow E rec t = (None, t')"
  shows "(columnCount (tableHeader t) + 7) div 8 < length rec
         \<and> (\<exists>t1. fixedLoop E (if 3 < version t then slice1 rec 2 else slice1 rec 1)
                    (nullTableOf (slice1 rec (int (length rec)
                                              - int ((columnCount (tableHeader t) + 7) div 8))))
                    (map snd (columns t)) t = (None, t1)
                \<and> (if rowDropped E rec t then t' = t1
                    else \<exists>m. dynamicLoop E rec m
                               (nullTableOf (slice1 rec (int (length rec)
                                  - int ((columnCount (tableHeader t) + 7) div 8))))
                               (filter (\<lambda>c. \<not> fixedLength c) (map snd (columns t))) 0 0 t1
                             = (None, t')))"
proof -
  let ?n = "(columnCount (tableHeader t) + 7) div 8"
  let ?nt = "nullTableOf (slice1 rec (int (length rec) - int ?n))"
  let ?r1 = "if 3 < version t then slice1 rec 2 else slice1 rec 1"
  let ?cols = "map snd (columns t)"
  from assms have len: "?n < length rec"
    by (auto simp: parseRow_def Let_def split: if_splits)
  obtain e t1 where f: "fixedLoop E ?r1 ?nt ?cols t = (e, t1)"
    by (cases "fixedLoop E ?r1 ?nt ?cols t")
  with assms len have e: "e = None"
    by (auto simp: parseRow_def Let_def split: if_splits option.splits)
  have s1: "sameButParsed t t1"
    using fixedLoop_same [of t E ?r1 ?nt ?cols] f by simp
  have md: "parseDynamicLengthRecordsMetadata E (rev rec) rec ?n t1
              = parseDynamicLengthRecordsMetadata E (rev rec) rec ?n t"
    using s1 by (rule metadata_same)
  have "if rowDropped E rec t then t' = t1
        else \<exists>m. dynamicLoop E rec m ?nt (filter (\<lambda>c. \<not> fixedLength c) ?cols) 0 0 t1
                   = (None, t')"
    using assms f e len md
    by (auto simp: parseRow_def Let_def rowDropped_def parseDynamicLengthData_def
        split: if_splits sum.splits option.splits)
  then show ?thesis using len f e by blast
qed

lemma dropped_row_emits_fixed_only:
  assumes "rowDropped E rec t" and "parseRow E rec t = (None, t')"
    and "\<forall>c \<in> set (map snd (columns t)). colNameStr c = name \<longrightarrow> \<not> fixedLength c"
  shows "columnValues t' name = columnValues t name"
proof -
  from parseRow_cases [OF assms(2)] assms(1) obtain r1 nt where
    f: "fixedLoop E r1 nt (map snd (columns t)) t = (None, t')"
    by auto
  have "filter (\<lambda>c. fixedLength c \<and> colNameStr c = name) (map snd (columns t)) = []"
    using assms(3) by (auto simp: filter_empty_conv)
  with fixedLoop_ok [OF f, of name] show ?thesis by auto
qed


text \<open>
  The guard of the Jet 3 metadata search, for a record whose parsed count differs from
  the declared one: \<open>p\<close> is the index of the low byte of the declared count.
\<close>

lemma metadata_search_guard:
  assumes "version t = 3"
    and "n = (columnCount (tableHeader t) + 7) div 8"
    and "cnt = (int (length rec) - 1) div 256"
    and "parseRelativeObjectMetadataStruct E (slice1 (rev rec) (int n)) (Some cnt) 3 = Inr m0"
    and "variableLengthFieldCount m0 \<noteq> variableColumns (tableHeader t)"
    and "p = indexOf (slice1 (rev rec) (int n)) (word_of_nat (variableColumns (tableHeader t)))"
  shows "(0 \<le> p \<and> p \<noteq> 1 \<and> p < 10 \<longrightarrow>
            parseDynamicLengthRecordsMetadata E (rev rec) rec n t
              = (case parseRelativeObjectMetadataStruct E
                        (slice1 (slice1 (rev rec) (int n)) p) (Some cnt) 3 of
                   Inl e \<Rightarrow> Inl (FailedToParseRecordMetadata rec)
                 | Inr m2 \<Rightarrow>
                     Inr (Some (m2\<lparr>relativeMetadataEnd := relativeMetadataEnd m2 + p\<rparr>))))
         \<and> (p = 1 \<or> 10 \<le> p \<longrightarrow>
              rowDropped E rec t
              \<and> (\<forall>t' name. parseRow E rec t = (None, t')
                    \<and> (\<forall>c \<in> set (map snd (columns t)).
                          colNameStr c = name \<longrightarrow> \<not> fixedLength c)
                    \<longrightarrow> columnValues t' name = columnValues t name))"
proof (intro conjI impI)
  assume "0 \<le> p \<and> p \<noteq> 1 \<and> p < 10"
  then show "parseDynamicLengthRecordsMetadata E (rev rec) rec n t
              = (case parseRelativeObjectMetadataStruct E
                        (slice1 (slice1 (rev rec) (int n)) p) (Some cnt) 3 of
                   Inl e \<Rightarrow> Inl (FailedToParseRecordMetadata rec)
                 | Inr m2 \<Rightarrow>
                     Inr (Some (m2\<lparr>relativeMetadataEnd := relativeMetadataEnd m2 + p\<rparr>)))"
    using assms(1-5) assms(6) [symmetric]
    by (simp add: parseDynamicLengthRecordsMetadata_def Let_def cong: sum.case_cong)
next
  assume drop: "p = 1 \<or> 10 \<le> p"
  then have none: "parseDynamicLengthRecordsMetadata E (rev rec) rec n t = Inr None"
    using assms(1-5) assms(6) [symmetric]
    by (auto simp: parseDynamicLengthRecordsMetadata_def Let_def)
  then show "rowDropped E rec t"
    using assms(2) by (simp add: rowDropped_def)
  then show "\<forall>t' name. parseRow E rec t = (None, t')
                    \<and> (\<forall>c \<in> set (map snd (columns t)).
                          colNameStr c = name \<longrightarrow> \<not> fixedLength c)
                    \<longrightarrow> columnValues t' name = columnValues t name"
    using dropped_row_emits_fixed_only by blast
qed

section \<open>Lemmas about the parser\<close>

lemma recordLoop_same: "sameButParsed t (snd (recordLoop E d offs lo t))"
proof (induction offs arbitrary: lo t)
  case Nil
  show ?case by simp
next
  case (Cons recOffset rest)
  have step: "\<And>r lo'. sameButParsed t (snd (recordLoop E d rest lo' (snd (parseRow E r t))))"
    using Cons.IH parseRow_same sameButParsed_trans by blast
  have step': "\<And>r lo' e t1. parseRow E r t = (e, t1)
                  \<Longrightarrow> sameButParsed t (snd (recordLoop E d rest lo' t1))"
    using step by (metis snd_conv)
  have row: "\<And>r e t1. parseRow E r t = (e, t1) \<Longrightarrow> sameButParsed t t1"
    using parseRow_same by (metis snd_conv)
  show ?case
    by (simp only: recordLoop.simps Let_def)
       (auto simp: Cons.IH step' row split: sum.splits option.splits prod.splits)
qed

lemma pageLoop_same: "sameButParsed t (snd (pageLoop E ps t))"
proof (induction ps arbitrary: t)
  case Nil
  show ?case by simp
next
  case (Cons page rest)
  have rl: "\<And>offs e t1. recordLoop E page offs None t = (e, t1) \<Longrightarrow> sameButParsed t t1"
    using recordLoop_same by (metis snd_conv)
  have step: "\<And>offs e t1. recordLoop E page offs None t = (e, t1)
                 \<Longrightarrow> sameButParsed t (snd (pageLoop E rest t1))"
    using rl Cons.IH sameButParsed_trans by blast
  have v: "\<And>t1. sameButParsed t t1 \<Longrightarrow> version t1 = version t"
    by (simp add: sameButParsed_def)
  show ?case
    by (auto simp: rl step split: sum.splits option.splits prod.splits)
qed

lemma parse_same: "parse E t = (e, t1) \<Longrightarrow> sameButParsed t t1"
  using pageLoop_same [of t E "linkedPages (table t)"] by (simp add: parse_def)

lemma afterCall_same:
  assumes "tablesWithData p key = Some tbl" and "table t1 = tbl"
    and "dataPages t1 = dbDataPages p" and "tableDefs t1 = dbTableDefs p"
  shows "afterCall p key t1 = p"
proof -
  have "(tablesWithData p)(key \<mapsto> tbl) = tablesWithData p"
    using assms(1) by (rule map_upd_triv)
  then show ?thesis using assms by (simp add: afterCall_def)
qed

lemma parseTableAt_frame:
  assumes "parseTableAt E name off p = Some (r, p')"
  shows "p' = p"
proof -
  have new: "\<And>tbl t. newAccessTable E tbl (dbVersion p) (dbPageSize p) (dbDataPages p)
                        (dbTableDefs p) = Some (Inr t)
               \<Longrightarrow> table t = tbl \<and> dataPages t = dbDataPages p \<and> tableDefs t = dbTableDefs p"
    by (auto simp: newAccessTable_def split: option.splits sum.splits)
  have wb: "\<And>key tbl t e t1. tablesWithData p key = Some tbl
              \<Longrightarrow> newAccessTable E tbl (dbVersion p) (dbPageSize p) (dbDataPages p)
                        (dbTableDefs p) = Some (Inr t)
              \<Longrightarrow> parse E t = (e, t1) \<Longrightarrow> afterCall p key t1 = p"
  proof -
    fix key tbl t e t1
    assume k: "tablesWithData p key = Some tbl"
      and n: "newAccessTable E tbl (dbVersion p) (dbPageSize p) (dbDataPages p)
                        (dbTableDefs p) = Some (Inr t)"
      and pr: "parse E t = (e, t1)"
    from parse_same [OF pr] new [OF n]
    have "table t1 = tbl" "dataPages t1 = dbDataPages p" "tableDefs t1 = dbTableDefs p"
      by (simp_all add: sameButParsed_def)
    with k show "afterCall p key t1 = p" by (rule afterCall_same)
  qed
  show ?thesis
  proof (cases "numKey off")
    case None
    then show ?thesis using assms by (simp add: parseTableAt_def)
  next
    case (Some key)
    show ?thesis
    proof (cases "tablesWithData p key")
      case None
      then show ?thesis
        using assms Some by (auto simp: parseTableAt_def split: option.splits)
    next
      case tbl: (Some tbl)
      show ?thesis
      proof (cases "newAccessTable E tbl (dbVersion p) (dbPageSize p) (dbDataPages p)
                      (dbTableDefs p)")
        case None
        then show ?thesis using assms Some tbl by (simp add: parseTableAt_def)
      next
        case new: (Some res)
        show ?thesis
        proof (cases res)
          case (Inl e)
          then show ?thesis using assms Some tbl new by (simp add: parseTableAt_def)
        next
          case (Inr t)
          obtain e t1 where pr: "parse E t = (e, t1)"
            by (cases "parse E t")
          have "afterCall p key t1 = p"
            using wb [OF tbl _ pr] new Inr by simp
          then show ?thesis
            using assms Some tbl new Inr pr
            by (cases e) (simp_all add: parseTableAt_def)
        qed
      qed
    qed
  qed
qed

lemma parseTableUnformatted_frame:
  assumes "parseTableUnformatted E name p = Some (r, p')"
  shows "p' = p"
  using assms
  by (auto simp: parseTableUnformatted_def split: lookup.splits jsval.splits
      dest: parseTableAt_frame)

lemma linkLoop_untouched:
  assumes "\<forall>page \<in> set pages. \<forall>h. parseDataPageHeader E page ver = Inr h
              \<longrightarrow> owner h * psize \<noteq> key"
  shows "linkLoop E ver psize tdefs pages twd key = twd key"
  using assms
proof (induction pages arbitrary: twd)
  case Nil
  show ?case by simp
next
  case (Cons page rest)
  then have IH: "\<And>twd'. linkLoop E ver psize tdefs rest twd' key = twd' key"
    by simp
  from Cons.prems have ne: "\<And>h. parseDataPageHeader E page ver = Inr h
                               \<Longrightarrow> owner h * psize \<noteq> key"
    by simp
  show ?case
    by (auto simp: IH Let_def dest: ne split: sum.splits option.splits)
qed



text \<open>
  The parser that the constructor returns holds in \<^verbatim>\<open>tablesWithData\<close> the result of
  \<^verbatim>\<open>linkTablesToData\<close> on its own pages.
\<close>

lemma newAccessParser_links:
  assumes "newAccessParser E buf = Some (Inr p)"
  shows "tablesWithData p
           = linkTablesToData E (dbVersion p) (dbPageSize p) (dbTableDefs p) (dbDataPages p)"
  using assms
  by (auto simp: newAccessParser_def Let_def split: sum.splits option.splits prod.splits)

section \<open>Lemmas about the examples\<close>

lemma latin1_hi: "latin1 [0x68, 0x69] = ''hi''"
  by (simp add: latin1_def char_of_def bit_Suc_0_iff)

lemmas exampleEnv_fields =
  exampleEnv_def exampleMetadata_def exampleDataPageHeader_def exampleTdefHeader_def
  exampleTableHead_def exampleMemo_def

text \<open>The example rows, parsed by the example table whatever pages it refers to.\<close>

lemma exampleRow_parsed:
  "parseRow exampleEnv exampleRow
       (exampleTable\<lparr>dataPages := dps, tableDefs := tds, table := tb\<rparr>)
     = (None, exampleTable\<lparr>dataPages := dps, tableDefs := tds, table := tb,
                parsedTable := [(''A'', [Null]), (''B'', [Str ''hi''])]\<rparr>)"
  by (simp add: parseRow_def exampleTable_def exampleRow_def exampleEnv_fields slice_eval
      Let_def nullTableOf_def upt_rec parseFixedLengthData_def columnA_def columnB_def
      pushValue_def ensureColumn_def dict_eval parseDynamicLengthRecordsMetadata_def
      parseDynamicLengthData_def dynamicValue_def elemAt_def sliceIndex_def parseType_def
      parseText_def latin1_hi)

lemma droppedRow_parsed:
  "parseRow exampleEnv droppedRow
       (exampleTable\<lparr>dataPages := dps, tableDefs := tds, table := tb,
          parsedTable := [(''A'', [Null]), (''B'', [Str ''hi''])]\<rparr>)
     = (None, exampleTable\<lparr>dataPages := dps, tableDefs := tds, table := tb,
                parsedTable := [(''A'', [Null, Num (Fin 9)]), (''B'', [Str ''hi''])]\<rparr>)"
  by (simp add: parseRow_def exampleTable_def droppedRow_def exampleEnv_fields slice_eval
      Let_def nullTableOf_def upt_rec parseFixedLengthData_def columnA_def columnB_def
      pushValue_def ensureColumn_def dict_eval parseDynamicLengthRecordsMetadata_def
      parseType_def getInt_def getUint_def toSigned_def)

lemma droppedRow_dropped: "rowDropped exampleEnv droppedRow exampleTable"
  by (simp add: rowDropped_def exampleTable_def droppedRow_def exampleEnv_fields slice_eval
      Let_def parseDynamicLengthRecordsMetadata_def)

lemma examplePage_header:
  "parseDataPageHeader exampleEnv examplePage ver = Inr \<lparr>owner = 3, recordOffsets = [20, 14]\<rparr>"
  by (simp add: exampleEnv_def exampleDataPageHeader_def examplePage_def droppedRow_def
      exampleRow_def)

lemma examplePage_slices:
  "slice1 examplePage 20 = exampleRow" "slice2 examplePage 14 20 = droppedRow"
  by (simp_all add: examplePage_def droppedRow_def exampleRow_def slice_eval)

lemma examplePage_parsed:
  "parse exampleEnv
       (exampleTable\<lparr>dataPages := dps, tableDefs := tds,
          table := \<lparr>pageValue = pv, linkedPages = [examplePage]\<rparr>\<rparr>)
     = (None, exampleTable\<lparr>dataPages := dps, tableDefs := tds,
                table := \<lparr>pageValue = pv, linkedPages = [examplePage]\<rparr>,
                parsedTable := [(''A'', [Null, Num (Fin 9)]), (''B'', [Str ''hi''])]\<rparr>)"
  by (simp add: parse_def examplePage_header examplePage_slices exampleRow_parsed
      droppedRow_parsed)

lemma exampleParser_tables:
  "tablesWithData exampleParser
     = [0x1800 \<mapsto> \<lparr>pageValue = exampleTdefPage, linkedPages = [examplePage]\<rparr>]"
  by (simp add: exampleParser_def linkTablesToData_def examplePage_header)

lemma exampleTable_new:
  "newAccessTable exampleEnv \<lparr>pageValue = exampleTdefPage, linkedPages = ps\<rparr> 3 0x800 dps tds
     = Some (Inr (exampleTable\<lparr>dataPages := dps, tableDefs := tds,
                    table := \<lparr>pageValue = exampleTdefPage, linkedPages = ps\<rparr>\<rparr>))"
  by (simp add: newAccessTable_def getTableColumns_def exampleEnv_fields exampleTdefPage_def
      columnDictOf_def minColumnIndex_def columnA_def columnB_def exampleTable_def)

lemma fl64_offsets [simp]: "fl64 6144 = Fin 6144" "fl64 10240 = Fin 10240"
  by (simp_all add: fl64_eval)

lemma example_lines:
  "linesOf [(''A'', [Null, Num (Fin 9)]), (''B'', [Str ''hi''])]
     = [\<lparr>data = [(''A'', Null), (''B'', Str ''hi'')], rowNumber = 1\<rparr>,
        \<lparr>data = [(''A'', Num (Fin 9)), (''B'', Undefined)], rowNumber = 2\<rparr>]"
  by (simp add: linesOf_def ownKeys_def isArrayIndex_def valueAt_def upt_rec dict_eval)

lemma exampleParser_parseTable:
  "parseTable exampleEnv ''T'' exampleParser
     = Some (Inr [\<lparr>data = [(''A'', Null), (''B'', Str ''hi'')], rowNumber = 1\<rparr>,
                  \<lparr>data = [(''A'', Num (Fin 9)), (''B'', Undefined)], rowNumber = 2\<rparr>],
             exampleParser)"
proof -
  have c: "map_of (catalog exampleParser) ''T'' = Some (Num (Fin 3))"
    by (simp add: exampleParser_def)
  have k: "numKey (jsTimes (toNumber exampleEnv (Num (Fin 3))) (of_nat (dbPageSize exampleParser)))
             = Some 0x1800"
    by (simp add: exampleParser_def toNumber_def jsTimes_def numKey_def)
  have f: "dbVersion exampleParser = 3" "dbPageSize exampleParser = 0x800"
    by (simp_all add: exampleParser_def)
  have wb: "afterCall exampleParser 0x1800
        (exampleTable\<lparr>dataPages := dbDataPages exampleParser,
           tableDefs := dbTableDefs exampleParser,
           table := \<lparr>pageValue = exampleTdefPage, linkedPages = [examplePage]\<rparr>,
           parsedTable := [(''A'', [Null, Num (Fin 9)]), (''B'', [Str ''hi''])]\<rparr>)
      = exampleParser"
    by (simp add: afterCall_def exampleParser_tables)
  show ?thesis
    using c k
    by (simp add: parseTable_def parseTableUnformatted_def parseTableAt_def Let_def
        exampleParser_tables f exampleTable_new examplePage_parsed wb example_lines)
qed

lemma recoveredRow_metadata:
  "parseRelativeObjectMetadataStruct exampleEnv (slice1 (rev recoveredRow) 1) (Some 0) 3
     = Inr \<lparr>variableLengthFieldCount = 5, variableLengthJumpTable = [],
             variableLengthFieldOffsets = [9, 2, 0, 7, 7], varLenCount = 7,
             relativeMetadataEnd = 7\<rparr>"
  "indexOf (slice1 (rev recoveredRow) 1) 2 = 2"
  "parseRelativeObjectMetadataStruct exampleEnv (slice1 (slice1 (rev recoveredRow) 1) 2)
       (Some 0) 3
     = Inr \<lparr>variableLengthFieldCount = 2, variableLengthJumpTable = [],
             variableLengthFieldOffsets = [0, 7], varLenCount = 7,
             relativeMetadataEnd = 4\<rparr>"
  by (simp_all add: exampleEnv_fields recoveredRow_def slice_eval)


lemma brokenPage_header:
  "parseDataPageHeader exampleEnv brokenPage 3 = Inl PrimitiveError"
  by (simp add: exampleEnv_fields brokenPage_def)


section \<open>Claims about the type registry\<close>



text \<open>
  C3 (as amended). On a host whose local time zone is UTC, the DateTime payload 0.0
  decodes to 1899-12-30T00:00:00.000Z and the payload 1.5 to 1899-12-31T12:00:00.000Z:
  the integer part is added to the day of the month of 1899-12-30T12:00:00Z, and the
  time of day is then set, not added, to the hours, minutes and seconds of the
  fractional part.
\<close>

theorem dateTime_epoch_in_utc:
  "localOffset h = 0 \<Longrightarrow>
     parseType h TDateTime [0, 0, 0, 0, 0, 0, 0, 0] len ver
       = Inr (Str ''1899-12-30T00:00:00.000Z'')
     \<and> parseType h TDateTime [0, 0, 0, 0, 0, 0, 0xF8, 0x3F] len ver
       = Inr (Str ''1899-12-31T12:00:00.000Z'')"
  by (simp add: parseType_def parseDateTime_zero parseDateTime_one_and_half)

theorem dateTime_epoch_in_utc_witness:
  "localOffset exampleHost = 0
     \<and> parseType exampleHost TDateTime [0, 0, 0, 0, 0, 0, 0, 0] None 4
       = Inr (Str ''1899-12-30T00:00:00.000Z'')
     \<and> parseType exampleHost TDateTime [0, 0, 0, 0, 0, 0, 0xF8, 0x3F] None 4
       = Inr (Str ''1899-12-31T12:00:00.000Z'')"
proof -
  have utc: "localOffset exampleHost = 0"
    by (simp add: exampleHost_def)
  show ?thesis
    using utc dateTime_epoch_in_utc [OF utc, of None 4] by simp
qed

text \<open>
  C3 as the spec states it fails: in UTC the payload 0.0 does not decode to
  1899-12-30T12:00:00.000Z, nor the payload 1.5 to 1899-12-31T00:00:00.000Z.
\<close>

theorem dateTime_epoch_counterexample:
  "parseType exampleHost TDateTime [0, 0, 0, 0, 0, 0, 0, 0] None 4
     \<noteq> Inr (Str ''1899-12-30T12:00:00.000Z'')
   \<and> parseType exampleHost TDateTime [0, 0, 0, 0, 0, 0, 0xF8, 0x3F] None 4
     \<noteq> Inr (Str ''1899-12-31T00:00:00.000Z'')"
proof -
  have utc: "localOffset exampleHost = 0"
    by (simp add: exampleHost_def)
  show ?thesis
    by (simp add: parseType_def parseDateTime_zero [OF utc]
        parseDateTime_one_and_half [OF utc])
qed

text \<open>
  C4 (as amended). Under the rule value = (low + high * 2^32) / 10000 the eight bytes
  00 D4 30 00 00 00 00 00 (low = 3200000) decode to 320, and the eight bytes
  39 30 00 00 00 00 00 00, the little-endian encoding of 12345, decode to 1.2345, that
  is to the double nearest to 12345 / 10000.
\<close>

theorem money_fixed_point_examples:
  "parseType h TMoney [0x00, 0xD4, 0x30, 0x00, 0x00, 0x00, 0x00, 0x00] len ver
     = Inr (Num (Fin 320))
   \<and> parseType h TMoney [0x39, 0x30, 0x00, 0x00, 0x00, 0x00, 0x00, 0x00] len ver
     = Inr (Num (fl64 (12345 / 10000)))
   \<and> fl64 (12345 / 10000) = Fin (5559693739988877 / 4503599627370496)"
  by (simp add: parseType_def parseMoney_examples fl64_12345_10000)

text \<open>
  C4 as the spec states it fails: the bytes 00 D4 30 00 00 00 00 00 do not decode to
  1.2345.
\<close>

theorem money_bytes_counterexample:
  "parseType exampleHost TMoney [0x00, 0xD4, 0x30, 0x00, 0x00, 0x00, 0x00, 0x00] None 4
     \<noteq> Inr (Num (fl64 (12345 / 10000)))"
  by (simp add: parseType_def parseMoney_examples fl64_12345_10000)

section \<open>Claims about rows\<close>

text \<open>
  C1 fails on the code, for every row: the sense of the bit is inverted.  When
  \<^verbatim>\<open>parseRow\<close> returns, each value it has appended for a column is null if and only if
  bit \<open>columnID\<close> of the trailing null bitmap of the row is set (a bit past the bitmap
  counts as clear), where the claim has: if and only if it is clear.  The values appended
  to the array of a column name are those of the fixed-length columns of that name and
  then, when the variable-length part of the row was parsed, those of the variable-length
  columns of that name.
\<close>

theorem null_iff_bit_set:
  assumes "parseRow E rec t = (None, t')"
  shows "\<exists>emitted.
           columnValues t' name = columnValues t name @ emitted
           \<and> list_all2
                (\<lambda>c v. (v = Null) = nullBitmapBit rec (columnCount (tableHeader t)) (columnID c))
                (filter (\<lambda>c. fixedLength c \<and> colNameStr c = name) (map snd (columns t))
                 @ (if rowDropped E rec t then []
                    else filter (\<lambda>c. \<not> fixedLength c \<and> colNameStr c = name)
                           (map snd (columns t))))
                emitted"
proof -
  let ?cc = "columnCount (tableHeader t)"
  let ?n = "(?cc + 7) div 8"
  let ?nt = "nullTableOf (slice1 rec (int (length rec) - int ?n))"
  let ?r1 = "if 3 < version t then slice1 rec 2 else slice1 rec 1"
  let ?cols = "map snd (columns t)"
  let ?P = "\<lambda>c v. (v = Null) = nullBitmapBit rec ?cc (columnID c)"
  from assms have len: "?n < length rec"
    by (auto simp: parseRow_def Let_def split: if_splits)
  have bit: "\<And>i. (i < length ?nt \<and> ?nt ! i) = nullBitmapBit rec ?cc i"
    using nullTable_bit [of ?n ?cc rec] len by simp
  obtain e t1 where f: "fixedLoop E ?r1 ?nt ?cols t = (e, t1)"
    by (cases "fixedLoop E ?r1 ?nt ?cols t")
  with assms len have e: "e = None"
    by (auto simp: parseRow_def Let_def split: if_splits option.splits)
  have s1: "sameButParsed t t1"
    using fixedLoop_same [of t E ?r1 ?nt ?cols] f by simp
  from fixedLoop_ok [of E ?r1 ?nt ?cols t t1 name] f e obtain vs where
    vs: "columnValues t1 name = columnValues t name @ vs"
    and rel: "list_all2 (\<lambda>c v. columnID c < length ?nt \<and> ((v = Null) = ?nt ! columnID c))
                (filter (\<lambda>c. fixedLength c \<and> colNameStr c = name) ?cols) vs"
    by auto
  have relF: "list_all2 ?P (filter (\<lambda>c. fixedLength c \<and> colNameStr c = name) ?cols) vs"
    using rel bit by (auto elim!: list_all2_mono)
  have md: "parseDynamicLengthRecordsMetadata E (rev rec) rec ?n t1
              = parseDynamicLengthRecordsMetadata E (rev rec) rec ?n t"
    using s1 by (rule metadata_same)
  show ?thesis
  proof (cases "rowDropped E rec t")
    case True
    then have "t' = t1"
      using assms f e len md
      by (auto simp: parseRow_def Let_def rowDropped_def split: if_splits)
    then show ?thesis using vs relF True by auto
  next
    case False
    then obtain m where m: "parseDynamicLengthRecordsMetadata E (rev rec) rec ?n t = Inr (Some m)"
      and d: "dynamicLoop E rec m ?nt (filter (\<lambda>c. \<not> fixedLength c) ?cols) 0 0 t1 = (None, t')"
      using assms f e len md
      by (auto simp: parseRow_def Let_def rowDropped_def parseDynamicLengthData_def
          split: if_splits sum.splits option.splits)
    from dynamicLoop_ok [OF d, of name] obtain ws where
      ws: "columnValues t' name = columnValues t1 name @ ws"
      and relV: "list_all2 (\<lambda>c v. (v = Null) = (columnID c < length ?nt \<and> ?nt ! columnID c))
                   (filter (\<lambda>c. colNameStr c = name) (filter (\<lambda>c. \<not> fixedLength c) ?cols)) ws"
      by auto
    have relV': "list_all2 ?P (filter (\<lambda>c. \<not> fixedLength c \<and> colNameStr c = name) ?cols) ws"
      using relV bit by (auto simp: conj_commute elim!: list_all2_mono)
    have "columnValues t' name = columnValues t name @ (vs @ ws)"
      using vs ws by simp
    moreover have "list_all2 ?P
        (filter (\<lambda>c. fixedLength c \<and> colNameStr c = name) ?cols
         @ filter (\<lambda>c. \<not> fixedLength c \<and> colNameStr c = name) ?cols) (vs @ ws)"
      using relF relV' by (rule list_all2_appendI)
    ultimately show ?thesis using False by auto
  qed
qed

theorem null_iff_bit_set_witness:
  "parseRow exampleEnv exampleRow exampleTable
     = (None, exampleTable\<lparr>parsedTable := [(''A'', [Null]), (''B'', [Str ''hi''])]\<rparr>)
   \<and> columnValues (exampleTable\<lparr>parsedTable := [(''A'', [Null]), (''B'', [Str ''hi''])]\<rparr>)
        ''A'' = [Null]
   \<and> nullBitmapBit exampleRow (columnCount (tableHeader exampleTable)) (columnID columnA)"
proof -
  have r: "parseRow exampleEnv exampleRow exampleTable
     = (None, exampleTable\<lparr>parsedTable := [(''A'', [Null]), (''B'', [Str ''hi''])]\<rparr>)"
    using exampleRow_parsed [where dps = "dataPages exampleTable"
        and tds = "tableDefs exampleTable" and tb = "table exampleTable"]
    by simp
  show ?thesis
    using r null_iff_bit_set [OF r, of "''A''"]
    by (auto simp: columnValues_def exampleTable_def columnA_def columnB_def
        list_all2_Cons1)
qed

text \<open>
  C1 at the example row: bit 0 of the bitmap is set and bit 1 is clear, and the row gives
  null for column A (\<open>columnID\<close> 0), whose byte is \<open>2A\<close>, and the text \<open>hi\<close> for column B
  (\<open>columnID\<close> 1).
\<close>

theorem null_iff_bit_clear_counterexample:
  "parsedTable (snd (parseRow exampleEnv exampleRow exampleTable))
     = [(''A'', [Null]), (''B'', [Str ''hi''])]
   \<and> nullBitmapBit exampleRow (columnCount (tableHeader exampleTable)) (columnID columnA)
   \<and> \<not> nullBitmapBit exampleRow (columnCount (tableHeader exampleTable)) (columnID columnB)"
  using exampleRow_parsed [where dps = "dataPages exampleTable"
      and tds = "tableDefs exampleTable" and tb = "table exampleTable"]
  by (simp add: nullBitmapBit_def exampleTable_def exampleRow_def columnA_def columnB_def)

text \<open>
  C2 fails on the code.  The second row of the example page is dropped: its metadata
  does not give one variable field and the count is not found where the recovery looks.
  By then \<^verbatim>\<open>parseRow\<close> has pushed the value of the fixed-length column A, so \<^verbatim>\<open>parse\<close>
  returns two values for A and one for B, and \<^verbatim>\<open>parseTable\<close> a second row in which B is
  \<^verbatim>\<open>undefined\<close>.
\<close>

theorem dropped_row_keeps_fixed_values:
  "rowDropped exampleEnv droppedRow exampleTable
   \<and> parse exampleEnv
        (exampleTable\<lparr>table := \<lparr>pageValue = exampleTdefPage, linkedPages = [examplePage]\<rparr>\<rparr>)
      = (None, exampleTable\<lparr>table := \<lparr>pageValue = exampleTdefPage,
                                        linkedPages = [examplePage]\<rparr>,
                 parsedTable := [(''A'', [Null, Num (Fin 9)]), (''B'', [Str ''hi''])]\<rparr>)
   \<and> parseTable exampleEnv ''T'' exampleParser
      = Some (Inr [\<lparr>data = [(''A'', Null), (''B'', Str ''hi'')], rowNumber = 1\<rparr>,
                   \<lparr>data = [(''A'', Num (Fin 9)), (''B'', Undefined)], rowNumber = 2\<rparr>],
              exampleParser)"
  using examplePage_parsed [where dps = "dataPages exampleTable"
      and tds = "tableDefs exampleTable" and pv = exampleTdefPage]
  by (simp add: droppedRow_dropped exampleParser_parseTable)

text \<open>
  C5. On Jet 3, when the parsed count of variable-length fields differs from
  \<^verbatim>\<open>variableColumns\<close>, the metadata is parsed again from the index at which the reversed
  record holds the low byte of the declared count: so for the first row below, which
  holds \<open>02 00\<close> at index 2.  The second row holds \<open>02 00\<close> at index 1, within the first
  10 bytes, and is dropped: the guard is \<^verbatim>\<open>metadataStart !== 1 && metadataStart < 10\<close>.
  In the third row the byte does not occur; \<^verbatim>\<open>indexOf\<close> gives \<open>-1\<close>, which passes
  the same guard, and the row is not dropped: the metadata is parsed again from the last
  byte of the reversed record, which fails and throws.
\<close>

theorem metadata_search_misses_index_one:
  "variableColumns (tableHeader twoVariableTable) = 2
   \<and> version twoVariableTable = 3
   \<and> take 2 (drop 2 (slice1 (rev recoveredRow) 1)) = [0x02, 0x00]
   \<and> parseDynamicLengthRecordsMetadata exampleEnv (rev recoveredRow) recoveredRow 1
        twoVariableTable
       = Inr (Some \<lparr>variableLengthFieldCount = 2, variableLengthJumpTable = [],
                     variableLengthFieldOffsets = [0, 7], varLenCount = 7,
                     relativeMetadataEnd = 6\<rparr>)
   \<and> take 2 (drop 1 (slice1 (rev unrecoveredRow) 1)) = [0x02, 0x00]
   \<and> parseDynamicLengthRecordsMetadata exampleEnv (rev unrecoveredRow) unrecoveredRow 1
        twoVariableTable = Inr None
   \<and> indexOf (slice1 (rev notFoundRow) 1) 0x02 = - 1
   \<and> parseDynamicLengthRecordsMetadata exampleEnv (rev notFoundRow) notFoundRow 1
        twoVariableTable = Inl (FailedToParseRecordMetadata notFoundRow)"
  by (simp add: parseDynamicLengthRecordsMetadata_def twoVariableTable_def exampleTable_def
      recoveredRow_def unrecoveredRow_def notFoundRow_def exampleEnv_fields slice_eval Let_def)

section \<open>Claims about the parser\<close>

text \<open>
  C7. \<^verbatim>\<open>getOverflowRecord\<close> reads the page number from the record pointer with
  \<^verbatim>\<open>>>> 8\<close> and the slot with \<^verbatim>\<open>& 0xff\<close>.  When the page is one of the data pages, what
  \<^verbatim>\<open>parseDataPageHeader\<close> throws on it is thrown by \<^verbatim>\<open>getOverflowRecord\<close> as well: the
  call is not guarded.  When the slot is equal to the number of record offsets of the
  page, a slot that the page does not have, it does not report "not found" either: it
  returns the bytes of the page up to the offset of the last slot (the whole page when
  there is no slot).
\<close>

theorem overflow_record_rethrows:
  assumes "map_of (dataPages t) (unat (drop_bit 8 ptr) * pageSize t) = Some page"
  shows "(parseDataPageHeader E page (version t) = Inl e
            \<longrightarrow> getOverflowRecord E ptr t = Inl e)
         \<and> (parseDataPageHeader E page (version t) = Inr h
              \<and> unat (ptr AND 0xff) = length (recordOffsets h)
            \<longrightarrow> getOverflowRecord E ptr t
                  = Inr (Some (if length (recordOffsets h) = 0 then sliceOpt page None None
                               else sliceOpt page None
                                      (maskOverflowFlag
                                         (elemAt (recordOffsets h)
                                            (length (recordOffsets h) - 1))))))"
  using assms by (simp add: getOverflowRecord_def Let_def elemAt_def maskOverflowFlag_def)

theorem overflow_record_rethrows_witness:
  "map_of (dataPages brokenTable) (unat (drop_bit 8 (0 :: 32 word)) * pageSize brokenTable)
     = Some brokenPage
   \<and> parseDataPageHeader exampleEnv brokenPage (version brokenTable) = Inl PrimitiveError
   \<and> getOverflowRecord exampleEnv 0 brokenTable = Inl PrimitiveError
   \<and> map_of (dataPages brokenTable)
        (unat (drop_bit 8 (0x102 :: 32 word)) * pageSize brokenTable) = Some examplePage
   \<and> parseDataPageHeader exampleEnv examplePage (version brokenTable)
       = Inr \<lparr>owner = 3, recordOffsets = [0x14, 0x0E]\<rparr>
   \<and> unat (0x102 AND 0xff :: 32 word) = 2
   \<and> getOverflowRecord exampleEnv 0x102 brokenTable = Inr (Some (take 14 examplePage))"
proof -
  have f: "version brokenTable = 3" "pageSize brokenTable = 0x800"
    "dataPages brokenTable = [(0, brokenPage), (0x800, examplePage)]"
    by (simp_all add: brokenTable_def exampleTable_def)
  have p0: "unat (drop_bit 8 (0 :: 32 word)) = 0"
    and p1: "unat (drop_bit 8 (0x102 :: 32 word)) = 1"
    and s1: "unat (0x102 AND 0xff :: 32 word) = 2"
    by (simp_all add: drop_bit_eq_div)
  have m0: "map_of (dataPages brokenTable)
              (unat (drop_bit 8 (0 :: 32 word)) * pageSize brokenTable) = Some brokenPage"
    and m1: "map_of (dataPages brokenTable)
              (unat (drop_bit 8 (0x102 :: 32 word)) * pageSize brokenTable) = Some examplePage"
    by (simp_all add: f p0 p1)
  have sl: "sliceOpt examplePage None (maskOverflowFlag (elemAt [0x14, 0x0E :: nat] 1))
              = take 14 examplePage"
    by (simp add: sliceOpt_def maskOverflowFlag_def elemAt_def examplePage_def exampleRow_def
        droppedRow_def slice_eval)
  show ?thesis
    using overflow_record_rethrows [OF m0, of exampleEnv PrimitiveError]
          overflow_record_rethrows
            [OF m1, where E = exampleEnv and h = "\<lparr>owner = 3, recordOffsets = [0x14, 0x0E]\<rparr>"]
          m0 m1 s1 sl
    by (simp add: f brokenPage_header examplePage_header)
qed

text \<open>
  C8. On a catalog table whose first row has no name, \<^verbatim>\<open>parseCatalog\<close> reads the Type,
  Flags and Id of the table \<open>A\<close> of the second row from the first row: \<open>A\<close> is listed by
  \<^verbatim>\<open>getTables\<close>, with the Id 7 of the nameless row, although its own row has Type 5 and
  the system flag 2.
\<close>

theorem catalog_lists_misaligned_entry:
  "catalogOf misalignedCatalog = Inr [(''A'', Num (Fin 7))]
   \<and> getTables (exampleParser\<lparr>catalog := [(''A'', Num (Fin 7))]\<rparr>) = [''A'']
   \<and> valueAt [Num (Fin 1), Num (Fin 5)] 1 = Num (Fin 5)
   \<and> valueAt [Num (Fin 0), Num (Fin 2)] 1 = Num (Fin 2)
   \<and> Num (Fin 2) \<in> set SYSTEM_TABLE_FLAGS"
  by (simp add: catalogOf_def catalogObjectOf_def misalignedCatalog_def valueAt_def
      SYSTEM_TABLE_FLAGS_def getTables_def ownKeys_def isArrayIndex_def dict_eval)

text \<open>
  C6. \<^verbatim>\<open>parseTable(name)\<close> throws a "Could not find table" error for every name that is
  not a key of the catalog: "Could not find table ... in Database", or, for a name that
  the catalog object inherits, "Could not find table ... offset NaN".  For a name of the
  catalog whose table-definition page exists, and to which the owner field of no data
  page points, so that \<^verbatim>\<open>linkTablesToData\<close> linked no data page to it, it throws "Empty
  table".  In both cases the parser is left as it was.
\<close>

theorem parseTable_unknown_or_empty:
  "(map_of (catalog p) name = None
      \<longrightarrow> parseTable E name p
            = Some (Inl (if catalogProto p \<and> name \<in> set objectPrototypeKeys
                         then CouldNotFindTableOffset name NaN
                         else CouldNotFindTable name), p))
   \<and> (map_of (catalog p) name = Some v
        \<and> numKey (jsTimes (toNumber E v) (of_nat (dbPageSize p))) = Some key
        \<and> map_of (dbTableDefs p) key = Some tdef
        \<and> tablesWithData p = linkTablesToData E (dbVersion p) (dbPageSize p)
                                (dbTableDefs p) (dbDataPages p)
        \<and> (\<forall>page \<in> set (map snd (dbDataPages p)).
              \<forall>h. parseDataPageHeader E page (dbVersion p) = Inr h
                    \<longrightarrow> owner h * dbPageSize p \<noteq> key)
      \<longrightarrow> parseTable E name p = Some (Inl EmptyTable, p))"
proof (intro conjI impI)
  assume "map_of (catalog p) name = None"
  then show "parseTable E name p
            = Some (Inl (if catalogProto p \<and> name \<in> set objectPrototypeKeys
                         then CouldNotFindTableOffset name NaN
                         else CouldNotFindTable name), p)"
    by (simp add: parseTable_def parseTableUnformatted_def parseTableAt_def getProp_def
        numKey_def)
next
  assume a: "map_of (catalog p) name = Some v
        \<and> numKey (jsTimes (toNumber E v) (of_nat (dbPageSize p))) = Some key
        \<and> map_of (dbTableDefs p) key = Some tdef
        \<and> tablesWithData p = linkTablesToData E (dbVersion p) (dbPageSize p)
                                (dbTableDefs p) (dbDataPages p)
        \<and> (\<forall>page \<in> set (map snd (dbDataPages p)).
              \<forall>h. parseDataPageHeader E page (dbVersion p) = Inr h
                    \<longrightarrow> owner h * dbPageSize p \<noteq> key)"
  then have "linkLoop E (dbVersion p) (dbPageSize p) (dbTableDefs p)
               (map snd (dbDataPages p)) Map.empty key = Map.empty key"
    by (intro linkLoop_untouched) simp
  with a have none: "tablesWithData p key = None"
    by (simp add: linkTablesToData_def)
  from a have "v \<noteq> Undefined"
    by (auto simp: toNumber_def jsTimes_def numKey_def)
  with a none show "parseTable E name p = Some (Inl EmptyTable, p)"
    by (cases v) (simp_all add: parseTable_def parseTableUnformatted_def parseTableAt_def)
qed

theorem parseTable_unknown_or_empty_witness:
  "map_of (catalog exampleParser) ''Nope'' = None
   \<and> parseTable exampleEnv ''Nope'' exampleParser
       = Some (Inl (CouldNotFindTable ''Nope''), exampleParser)
   \<and> map_of (catalog exampleParser) ''toString'' = None
   \<and> parseTable exampleEnv ''toString'' exampleParser
       = Some (Inl (CouldNotFindTableOffset ''toString'' NaN), exampleParser)
   \<and> map_of (catalog exampleParser) ''Empty'' = Some (Num (Fin 5))
   \<and> numKey (jsTimes (toNumber exampleEnv (Num (Fin 5))) (of_nat (dbPageSize exampleParser)))
       = Some 0x2800
   \<and> map_of (dbTableDefs exampleParser) 0x2800 = Some exampleTdefPage
   \<and> parseDataPageHeader exampleEnv examplePage 3
       = Inr \<lparr>owner = 3, recordOffsets = [0x14, 0x0E]\<rparr>
   \<and> parseTable exampleEnv ''Empty'' exampleParser = Some (Inl EmptyTable, exampleParser)"
proof -
  have c1: "map_of (catalog exampleParser) ''Nope'' = None"
    and c3: "map_of (catalog exampleParser) ''toString'' = None"
    and c2: "map_of (catalog exampleParser) ''Empty'' = Some (Num (Fin 5))"
    and k: "numKey (jsTimes (toNumber exampleEnv (Num (Fin 5)))
                      (of_nat (dbPageSize exampleParser))) = Some 0x2800"
    and d: "map_of (dbTableDefs exampleParser) 0x2800 = Some exampleTdefPage"
    and l: "tablesWithData exampleParser
              = linkTablesToData exampleEnv (dbVersion exampleParser)
                  (dbPageSize exampleParser) (dbTableDefs exampleParser)
                  (dbDataPages exampleParser)"
    and pr: "catalogProto exampleParser"
    by (simp_all add: exampleParser_def toNumber_def jsTimes_def numKey_def)
  have o: "\<forall>page \<in> set (map snd (dbDataPages exampleParser)).
             \<forall>h. parseDataPageHeader exampleEnv page (dbVersion exampleParser) = Inr h
                   \<longrightarrow> owner h * dbPageSize exampleParser \<noteq> 0x2800"
    by (auto simp: exampleParser_def examplePage_header)
  show ?thesis
    using parseTable_unknown_or_empty
            [where p = exampleParser and name = "''Nope''" and E = exampleEnv]
          parseTable_unknown_or_empty
            [where p = exampleParser and name = "''toString''" and E = exampleEnv]
          parseTable_unknown_or_empty
            [where p = exampleParser and name = "''Empty''" and E = exampleEnv
               and v = "Num (Fin 5)" and key = "0x2800" and tdef = exampleTdefPage]
          c1 c2 c3 k d l o pr
    by (simp add: examplePage_header objectPrototypeKeys_def)
qed

text \<open>
  C10. A call of \<^verbatim>\<open>parseTable\<close> that returns or throws leaves the parser as it was:
  version, page size, table definitions, data pages, \<^verbatim>\<open>tablesWithData\<close> and catalog.  A
  second call with the same name on the parser it leaves has the same outcome.
\<close>

theorem parseTable_leaves_parser:
  assumes "parseTable E name p = Some (r, p')"
  shows "p' = p \<and> parseTable E name p' = Some (r, p')"
proof -
  from assms have "p' = p"
    by (auto simp: parseTable_def split: option.splits sum.splits prod.splits
        dest: parseTableUnformatted_frame)
  with assms show ?thesis by simp
qed

theorem parseTable_leaves_parser_witness:
  "parseTable exampleEnv ''T'' exampleParser
     = Some (Inr [\<lparr>data = [(''A'', Null), (''B'', Str ''hi'')], rowNumber = 1\<rparr>,
                  \<lparr>data = [(''A'', Num (Fin 9)), (''B'', Undefined)], rowNumber = 2\<rparr>],
             exampleParser)
   \<and> (exampleParser = exampleParser
      \<and> parseTable exampleEnv ''T'' exampleParser
          = Some (Inr [\<lparr>data = [(''A'', Null), (''B'', Str ''hi'')], rowNumber = 1\<rparr>,
                       \<lparr>data = [(''A'', Num (Fin 9)), (''B'', Undefined)], rowNumber = 2\<rparr>],
                  exampleParser))"
  using parseTable_leaves_parser [OF exampleParser_parseTable] exampleParser_parseTable
  by simp

end
